theory Spec2Isabelle
  imports Complex_Main
begin

section \<open>Messages and constants of scripts/mission7.py\<close>

text \<open>
  Roombas and the drone are both reported as nav\_msgs Odometry messages. The script reads
  \<open>child_frame_id\<close>, \<open>pose.pose.position.x/y\<close> and the four components of
  \<open>pose.pose.orientation\<close>; the record keeps these fields. Python floats are modelled
  as real numbers, so rounding, overflow of \<open>x ** 2\<close> and NaN are outside the model.
\<close>

record odometry =
  child_frame_id :: string
  position_x :: real
  position_y :: real
  orientation_x :: real
  orientation_y :: real
  orientation_z :: real
  orientation_w :: real

datatype error = IndexError | AttributeError | ZeroDivisionError

definition TRANSLATION_HEIGHT :: real where
  "TRANSLATION_HEIGHT = 3 / 2"

definition MIN_GOTO_DISTANCE :: real where
  "MIN_GOTO_DISTANCE = 1 / 2"

definition USE_PLANNER :: bool where
  "USE_PLANNER = True"

definition TARGET_NUM_ROOMBAS :: nat where
  "TARGET_NUM_ROOMBAS = 2"

text \<open>Seconds; \<open>1 * 60\<close> in the source.\<close>

definition MAX_FLIGHT_DURATION :: int where
  "MAX_FLIGHT_DURATION = 1 * 60"

definition TRANSLATION_VELOCITY :: real where
  "TRANSLATION_VELOCITY = 4"

definition SEARCH_POINTS :: "(real \<times> real) list" where
  "SEARCH_POINTS =
     [(0, 0), (0, 15 / 2), (- (15 / 2), 15 / 2), (- (15 / 2), - (15 / 2)),
      (0, - (15 / 2)), (15 / 2, 0)]"

section \<open>Target selection\<close>

definition roomba_distance :: "odometry \<Rightarrow> odometry \<Rightarrow> real" where
  "roomba_distance roomba_odom drone_odom =
     (let x_diff = position_x drone_odom - position_x roomba_odom;
          y_diff = position_y drone_odom - position_y roomba_odom
      in sqrt (x_diff\<^sup>2 + y_diff\<^sup>2))"

text \<open>
  \<open>find_roomba_by_id\<close>: the list comprehension is a filter that keeps the snapshot order;
  an empty result gives \<open>None\<close>, otherwise element 0 is returned.
\<close>

definition find_roomba_by_id :: "odometry list \<Rightarrow> string \<Rightarrow> odometry option" where
  "find_roomba_by_id roombas desired_id =
     (let roomba_list = filter (\<lambda>x. child_frame_id x = desired_id) roombas
      in if length roomba_list = 0 then None else Some (roomba_list ! 0))"

text \<open>
  \<open>target_roomba_law\<close> sorts the pairs \<open>(distance, message)\<close> themselves, with no key
  function. Python compares two tuples at the first position where they differ under
  \<open>==\<close>: pairs with different distances are ordered by distance; pairs with the same
  distance and messages that are equal under \<open>==\<close> (genpy compares all fields) are equal;
  pairs with the same distance and unequal messages are ordered by \<open>r1 < r2\<close> on the
  messages. The message class defines no \<open><\<close> of its own, and the Python 2 interpreter
  the script runs under then orders the two objects by where they happen to be stored. That
  order is not determined by the contents of the snapshot, so it is the parameter \<open>lt\<close>.
\<close>

definition tuple_less ::
  "(odometry \<Rightarrow> odometry \<Rightarrow> bool) \<Rightarrow> real \<times> odometry \<Rightarrow> real \<times> odometry \<Rightarrow> bool" where
  "tuple_less lt a b =
     (if fst a \<noteq> fst b then fst a < fst b
      else if snd a \<noteq> snd b then lt (snd a) (snd b)
      else False)"

text \<open>
  \<open>sorted\<close> is stable: an element goes behind every element it is not smaller than. It
  is modelled as the insertion sort that takes the elements from left to right (what
  CPython itself runs on short lists).
\<close>

fun insert_sorted :: "('a \<Rightarrow> 'a \<Rightarrow> bool) \<Rightarrow> 'a \<Rightarrow> 'a list \<Rightarrow> 'a list" where
  "insert_sorted lt x [] = [x]"
| "insert_sorted lt x (y # ys) =
     (if lt x y then x # y # ys else y # insert_sorted lt x ys)"

definition sorted_py :: "('a \<Rightarrow> 'a \<Rightarrow> bool) \<Rightarrow> 'a list \<Rightarrow> 'a list" where
  "sorted_py lt xs = foldl (\<lambda>acc x. insert_sorted lt x acc) [] xs"

text \<open>\<open>sorted_roombas[0]\<close> raises IndexError on an empty list.\<close>

definition target_roomba_law ::
  "(odometry \<Rightarrow> odometry \<Rightarrow> bool) \<Rightarrow> odometry list \<Rightarrow> odometry \<Rightarrow> error + odometry" where
  "target_roomba_law lt roombas odom =
     (let sorted_roombas = sorted_py (tuple_less lt) (map (\<lambda>r. (roomba_distance r odom, r)) roombas)
      in case sorted_roombas of
           [] \<Rightarrow> Inl IndexError
         | p # _ \<Rightarrow> Inr (snd p))"

text \<open>
  The reading of \<open>find_roomba_by_id\<close> in words: walk the snapshot from the front and stop
  at the first message that carries the identifier.
\<close>

fun first_with_id :: "odometry list \<Rightarrow> string \<Rightarrow> odometry option" where
  "first_with_id [] desired_id = None"
| "first_with_id (x # xs) desired_id =
     (if child_frame_id x = desired_id then Some x else first_with_id xs desired_id)"


text \<open>
  The claim about ties in words: the first message of the snapshot among those at the
  smallest distance (\<open>\<le>\<close> keeps the earlier of two equally near messages).
\<close>

fun nearest_first :: "odometry \<Rightarrow> odometry list \<Rightarrow> odometry option" where
  "nearest_first drone [] = None"
| "nearest_first drone (r # rs) =
     (case nearest_first drone rs of
        None \<Rightarrow> Some r
      | Some s \<Rightarrow> if roomba_distance r drone \<le> roomba_distance s drone then Some r else Some s)"

section \<open>The action client, the two subscriptions and the clock\<close>

text \<open>The status codes of actionlib\_msgs/GoalStatus.\<close>

datatype GoalStatus =
    PENDING | ACTIVE | PREEMPTED | SUCCEEDED | ABORTED | REJECTED
  | PREEMPTING | RECALLING | RECALLED | LOST

text \<open>
  The script builds four kinds of QuadMoveGoal, told apart by \<open>movement_type\<close>:
  \<^item> \<open>Basic goal\<close> is \<open>QuadMoveGoal(movement_type=goal)\<close>;
  \<^item> \<open>XYZTranslate x y z\<close> is \<open>movement_type="xyztranslate"\<close> with \<open>x_position\<close>,
    \<open>y_position\<close>, \<open>z_position\<close>;
  \<^item> \<open>VelocityTest vx vy z t\<close> is \<open>movement_type="velocity_test"\<close> with
    \<open>x_velocity\<close>, \<open>y_velocity\<close>, \<open>z_position\<close>, \<open>time_velocity\<close>;
  \<^item> \<open>TrackRoomba fid xo yo t\<close> is \<open>movement_type="track_roomba"\<close> with \<open>frame_id\<close>,
    \<open>x_overshoot\<close>, \<open>y_overshoot\<close> and \<open>time_to_track\<close>, which is \<open>None\<close> where the
    call does not pass it.
\<close>

datatype QuadMoveGoal =
    Basic string
  | XYZTranslate real real real
  | VelocityTest real real real real
  | TrackRoomba string real real "real option"

text \<open>What the script asks of the SimpleActionClient, in the order it asks.\<close>

datatype call =
    SendGoal QuadMoveGoal
  | CancelGoal
  | GetState GoalStatus
  | WaitForResult
  | GetResult

text \<open>
  What the two subscriber callbacks have stored: \<open>self._avail_roombas\<close> and
  \<open>self._odom\<close>. The constructor sets neither attribute, so each is \<open>None\<close> here until
  its first message has come, and reading it then raises AttributeError.
\<close>

record sample =
  feed_roombas :: "odometry list option"
  feed_odom :: "odometry option"

text \<open>
  A function returns a value, raises, or is still inside one of its loops when the
  number of passes it was allowed is used up.
\<close>

datatype 'a outcome = Returns 'a | Raises error | StillRunning

text \<open>
  The world the script runs in. The first five fields are its surroundings and never
  change: the status the action client reports at the n-th query, what the callbacks have
  stored at the n-th pass of a polling loop (one reading per pass), the ROS time in
  nanoseconds at the n-th pass, the arena-to-map transformation of the
  ArenaPositionEstimator, and the interpreter's order on unequal messages. The others are
  the script's own state: the number of status queries and of passes so far, the calls
  made on the client, and \<open>self._search_state\<close>.
\<close>

record world =
  status_feed :: "nat \<Rightarrow> GoalStatus"
  sensors :: "nat \<Rightarrow> sample"
  wall_clock :: "nat \<Rightarrow> int"
  arena_to_map :: "real \<times> real \<Rightarrow> real \<times> real"
  msg_lt :: "odometry \<Rightarrow> odometry \<Rightarrow> bool"
  polls :: nat
  ticks :: nat
  calls :: "call list"
  search_state :: nat

definition Time_now :: "world \<Rightarrow> int" where
  "Time_now w = wall_clock w (ticks w)"

definition Duration :: "int \<Rightarrow> int" where
  "Duration secs = secs * 1000000000"

definition rate_sleep :: "world \<Rightarrow> world" where
  "rate_sleep w = w\<lparr>ticks := ticks w + 1\<rparr>"

definition send_goal :: "QuadMoveGoal \<Rightarrow> world \<Rightarrow> world" where
  "send_goal g w = w\<lparr>calls := calls w @ [SendGoal g]\<rparr>"

definition cancel_goal :: "world \<Rightarrow> world" where
  "cancel_goal w = w\<lparr>calls := calls w @ [CancelGoal]\<rparr>"

definition get_state :: "world \<Rightarrow> GoalStatus \<times> world" where
  "get_state w =
     (let s = status_feed w (polls w)
      in (s, w\<lparr>polls := polls w + 1, calls := calls w @ [GetState s]\<rparr>))"

definition did_task_fail :: "world \<Rightarrow> GoalStatus option \<Rightarrow> bool \<times> world" where
  "did_task_fail w state =
     (let (s, w1) = (case state of None \<Rightarrow> get_state w | Some s \<Rightarrow> (s, w))
      in (s = ABORTED \<or> s = REJECTED \<or> s = PREEMPTED \<or> s = RECALLED, w1))"

definition did_task_succeed :: "world \<Rightarrow> GoalStatus option \<Rightarrow> bool \<times> world" where
  "did_task_succeed w state =
     (let (s, w1) = (case state of None \<Rightarrow> get_state w | Some s \<Rightarrow> (s, w))
      in (s = SUCCEEDED, w1))"

text \<open>\<open>or\<close> does not evaluate its right operand when the left one is true.\<close>

definition did_task_finish :: "world \<Rightarrow> bool \<times> world" where
  "did_task_finish w =
     (let (failed, w1) = did_task_fail w None
      in if failed then (True, w1) else did_task_succeed w1 None)"

text \<open>
  \<open>wait_for_result\<close> belongs to actionlib. It blocks until the goal has reached a final
  status (succeeded, or one of the four failures), looking again after each wait.
\<close>

definition final_status :: "GoalStatus \<Rightarrow> bool" where
  "final_status s =
     (s = SUCCEEDED \<or> s = ABORTED \<or> s = REJECTED \<or> s = PREEMPTED \<or> s = RECALLED)"

fun wait_for_result :: "nat \<Rightarrow> world \<Rightarrow> bool outcome \<times> world" where
  "wait_for_result 0 w = (StillRunning, w)"
| "wait_for_result (Suc n) w =
     (let s = status_feed w (polls w);
          w1 = w\<lparr>polls := polls w + 1\<rparr>
      in if final_status s then (Returns True, w1\<lparr>calls := calls w1 @ [WaitForResult]\<rparr>)
         else wait_for_result n (rate_sleep w1))"

section \<open>Goals\<close>

definition construct_xyz_goal ::
  "(real \<times> real \<Rightarrow> real \<times> real) \<Rightarrow> real \<times> real \<Rightarrow> real \<Rightarrow> QuadMoveGoal" where
  "construct_xyz_goal to_map arena_pos height =
     (let map_pos = to_map arena_pos
      in XYZTranslate (fst map_pos) (snd map_pos) height)"

text \<open>Dividing a float by zero raises ZeroDivisionError.\<close>

definition construct_velocity_goal ::
  "(real \<times> real \<Rightarrow> real \<times> real) \<Rightarrow> real \<times> real \<Rightarrow> odometry \<Rightarrow> real \<Rightarrow> error + QuadMoveGoal" where
  "construct_velocity_goal to_map arena_pos quad_odom height =
     (let map_pos = to_map arena_pos;
          diff_x = fst arena_pos - position_x quad_odom;
          diff_y = snd arena_pos - position_y quad_odom;
          hypot = sqrt (diff_x\<^sup>2 + diff_y\<^sup>2)
      in if hypot = 0 then Inl ZeroDivisionError
         else
           (let u_x = diff_x / hypot;
                u_y = diff_y / hypot;
                v_x = u_x * TRANSLATION_VELOCITY;
                v_y = u_y * TRANSLATION_VELOCITY;
                time = hypot / TRANSLATION_VELOCITY
            in Inr (VelocityTest v_x v_y height time)))"

definition construct_goto_roomba_goal :: "odometry \<Rightarrow> QuadMoveGoal" where
  "construct_goto_roomba_goal roomba =
     XYZTranslate (position_x roomba) (position_y roomba) TRANSLATION_HEIGHT"

definition begin_translate :: "real \<times> real \<Rightarrow> real \<Rightarrow> world \<Rightarrow> error + world" where
  "begin_translate arena_pos height w =
     (if USE_PLANNER then
        (let map_pos = construct_xyz_goal (arena_to_map w) arena_pos height
         in Inr (send_goal map_pos w))
      else
        (case feed_odom (sensors w (ticks w)) of
           None \<Rightarrow> Inl AttributeError
         | Some quad_odom \<Rightarrow>
             (case construct_velocity_goal (arena_to_map w) arena_pos quad_odom height of
                Inl e \<Rightarrow> Inl e
              | Inr g \<Rightarrow> Inr (send_goal g w))))"

text \<open>\<open>get_result\<close> is only logged by the script; its value is not used.\<close>

definition basic_goal :: "nat \<Rightarrow> string \<Rightarrow> world \<Rightarrow> unit outcome \<times> world" where
  "basic_goal n goal w =
     (case wait_for_result n (send_goal (Basic goal) w) of
        (Returns _, w1) \<Rightarrow> (Returns (), w1\<lparr>calls := calls w1 @ [GetResult]\<rparr>)
      | (Raises e, w1) \<Rightarrow> (Raises e, w1)
      | (StillRunning, w1) \<Rightarrow> (StillRunning, w1))"

section \<open>Searching\<close>

text \<open>
  One pass of the loop of \<open>wait_for_roomba\<close> asks the client twice, then looks at the
  snapshot; the call of \<open>target_roomba_law\<close> stands behind the test \<open>len(...) > 0\<close>.
  \<open>target_roomba_law\<close> returns a message, never \<open>None\<close>, so the test of its result
  always succeeds.
\<close>

fun wait_for_roomba :: "nat \<Rightarrow> world \<Rightarrow> (bool \<times> odometry option) outcome \<times> world" where
  "wait_for_roomba 0 w = (StillRunning, w)"
| "wait_for_roomba (Suc n) w =
     (let (failed, w1) = did_task_fail w None
      in if failed then (Returns (False, None), w1)
         else
           (let (succeeded, w2) = did_task_succeed w1 None
            in if succeeded then (Returns (True, None), w2)
               else
                 (case feed_roombas (sensors w2 (ticks w2)) of
                    None \<Rightarrow> (Raises AttributeError, w2)
                  | Some roombas \<Rightarrow>
                      if length roombas > 0 then
                        (case feed_odom (sensors w2 (ticks w2)) of
                           None \<Rightarrow> (Raises AttributeError, w2)
                         | Some drone \<Rightarrow>
                             (case target_roomba_law (msg_lt w2) roombas drone of
                                Inl e \<Rightarrow> (Raises e, w2)
                              | Inr target_roomba \<Rightarrow> (Returns (True, Some target_roomba), w2)))
                      else wait_for_roomba n (rate_sleep w2))))"

text \<open>
  The new value of \<open>_search_state\<close> after a waypoint was reached with no roomba in
  sight: \<open>self._search_state + 1 if self._search_state + 1 < SEARCH_POINTS.shape[0] else 1\<close>.
  \<open>SEARCH_POINTS.shape[0]\<close> is the number of waypoints.
\<close>

definition next_search_state :: "nat \<Rightarrow> nat" where
  "next_search_state c = (if c + 1 < length SEARCH_POINTS then c + 1 else 1)"

text \<open>
  The loop of \<open>search_for_roomba\<close>. A nested loop is allowed as many passes as the loop
  around it.
\<close>

fun search_loop :: "nat \<Rightarrow> world \<Rightarrow> odometry outcome \<times> world" where
  "search_loop 0 w = (StillRunning, w)"
| "search_loop (Suc n) w =
     (if search_state w < length SEARCH_POINTS then
        (case begin_translate (SEARCH_POINTS ! search_state w) TRANSLATION_HEIGHT w of
           Inl e \<Rightarrow> (Raises e, w)
         | Inr w1 \<Rightarrow>
             (case wait_for_roomba (Suc n) w1 of
                (Returns (xyz_translate_ok, roomba), w2) \<Rightarrow>
                  if \<not> xyz_translate_ok then search_loop n w2
                  else
                    (case roomba of
                       None \<Rightarrow>
                         search_loop n (w2\<lparr>search_state := next_search_state (search_state w2)\<rparr>)
                     | Some r \<Rightarrow> (Returns r, w2))
              | (Raises e, w2) \<Rightarrow> (Raises e, w2)
              | (StillRunning, w2) \<Rightarrow> (StillRunning, w2)))
      else (Raises IndexError, w))"

definition search_for_roomba :: "nat \<Rightarrow> world \<Rightarrow> odometry outcome \<times> world" where
  "search_for_roomba n w =
     (let w0 = (if search_state w \<noteq> 0 then w\<lparr>search_state := 1\<rparr> else w)
      in case search_loop n w0 of
           (Returns roomba, w1) \<Rightarrow> (Returns roomba, w1\<lparr>search_state := 1\<rparr>)
         | (Raises e, w1) \<Rightarrow> (Raises e, w1)
         | (StillRunning, w1) \<Rightarrow> (StillRunning, w1))"

section \<open>Tracking\<close>

text \<open>
  One pass of the loop of \<open>track_roomba_to_completion\<close> runs three \<open>if\<close> statements one
  after the other (none is an \<open>elif\<close>), so a pass that leaves the first with
  \<open>track_state = 1\<close> enters the second at once. Each is a function here, from the
  \<open>track_state\<close> and the world before it to those after it. \<open>track_state\<close> is 0 while a
  goal has to be decided, 1 while going to the roomba, 2 while tracking it.
\<close>

definition decide_action :: "odometry \<Rightarrow> string \<Rightarrow> real \<Rightarrow> nat \<times> world \<Rightarrow> nat \<times> world" where
  "decide_action roomba roomba_id d tw =
     (let (track_state, w) = tw
      in if track_state = 0 then
           (if d \<ge> MIN_GOTO_DISTANCE then (1, send_goal (construct_goto_roomba_goal roomba) w)
            else (2, send_goal (TrackRoomba roomba_id 0 0 None) w))
         else (track_state, w))"

definition going_to_roomba :: "string \<Rightarrow> real \<Rightarrow> nat \<times> world \<Rightarrow> nat \<times> world" where
  "going_to_roomba roomba_id d tw =
     (let (track_state, w) = tw
      in if track_state = 1 then
           (let (state, w1) = get_state w;
                (succeeded, w2) = did_task_succeed w1 None;
                track_state1 = (if succeeded then 0 else track_state);
                (failed, w3) = did_task_fail w2 None;
                track_state2 = (if failed then 0 else track_state1)
            in if d < MIN_GOTO_DISTANCE then
                 (2, send_goal (TrackRoomba roomba_id 0 0 (Some 100000)) (cancel_goal w3))
               else (track_state2, w3))
         else (track_state, w))"

text \<open>
  In the last statement the heading computed by \<open>roomba_yaw\<close> is stored in a local
  variable that nothing reads, so that branch leaves everything as it is.
\<close>

definition tracking_roomba :: "nat \<times> world \<Rightarrow> nat \<times> world" where
  "tracking_roomba tw =
     (let (track_state, w) = tw
      in if track_state = 2 then
           (let (state, w1) = get_state w;
                (finished, w2) = did_task_finish w1
            in if finished then (0, w2) else (track_state, w2))
         else (track_state, w))"

text \<open>
  One pass: \<open>StillRunning\<close> with the new \<open>track_state\<close> when the loop goes on, the
  returned value otherwise.
\<close>

definition track_tick :: "string \<Rightarrow> nat \<Rightarrow> world \<Rightarrow> bool outcome \<times> nat \<times> world" where
  "track_tick roomba_id track_state w =
     (case feed_roombas (sensors w (ticks w)) of
        None \<Rightarrow> (Raises AttributeError, track_state, w)
      | Some roombas \<Rightarrow>
          (case find_roomba_by_id roombas roomba_id of
             None \<Rightarrow> (Returns False, track_state, w)
           | Some roomba \<Rightarrow>
               (case feed_odom (sensors w (ticks w)) of
                  None \<Rightarrow> (Raises AttributeError, track_state, w)
                | Some drone \<Rightarrow>
                    (let d = roomba_distance roomba drone;
                         (track_state3, w3) =
                            tracking_roomba
                              (going_to_roomba roomba_id d
                                (decide_action roomba roomba_id d (track_state, w)))
                     in (StillRunning, track_state3, rate_sleep w3)))))"

fun track_loop :: "nat \<Rightarrow> string \<Rightarrow> nat \<Rightarrow> world \<Rightarrow> bool outcome \<times> world" where
  "track_loop 0 roomba_id track_state w = (StillRunning, w)"
| "track_loop (Suc n) roomba_id track_state w =
     (case track_tick roomba_id track_state w of
        (StillRunning, track_state', w') \<Rightarrow> track_loop n roomba_id track_state' w'
      | (Returns b, _, w') \<Rightarrow> (Returns b, w')
      | (Raises e, _, w') \<Rightarrow> (Raises e, w'))"

definition track_roomba_to_completion :: "nat \<Rightarrow> odometry \<Rightarrow> world \<Rightarrow> bool outcome \<times> world" where
  "track_roomba_to_completion n roomba w = track_loop n (child_frame_id roomba) 0 w"

section \<open>The mission\<close>

text \<open>
  The loop of \<open>attempt_mission7\<close>. \<open>mission7_completed\<close> is never set, so the loop is left
  only through one of the two \<open>break\<close> statements. ROS times compare by their
  nanoseconds.
\<close>

fun mission_loop :: "nat \<Rightarrow> int \<Rightarrow> nat \<Rightarrow> world \<Rightarrow> nat outcome \<times> world" where
  "mission_loop 0 flight_start_time gotten_roombas w = (StillRunning, w)"
| "mission_loop (Suc n) flight_start_time gotten_roombas w =
     (case search_for_roomba (Suc n) w of
        (Returns roomba, w1) \<Rightarrow>
          (case track_roomba_to_completion (Suc n) roomba w1 of
             (Returns got_roomba, w2) \<Rightarrow>
               (let gotten = (if got_roomba then gotten_roombas + 1 else gotten_roombas)
                in if gotten > TARGET_NUM_ROOMBAS then (Returns gotten, w2)
                   else if Time_now w2 > flight_start_time + Duration MAX_FLIGHT_DURATION
                     then (Returns gotten, w2)
                   else mission_loop n flight_start_time gotten w2)
           | (Raises e, w2) \<Rightarrow> (Raises e, w2)
           | (StillRunning, w2) \<Rightarrow> (StillRunning, w2))
      | (Raises e, w1) \<Rightarrow> (Raises e, w1)
      | (StillRunning, w1) \<Rightarrow> (StillRunning, w1))"

definition attempt_mission7 :: "nat \<Rightarrow> world \<Rightarrow> unit outcome \<times> world" where
  "attempt_mission7 n w =
     (let flight_start_time = Time_now w
      in case basic_goal n ''takeoff'' w of
           (Returns _, w1) \<Rightarrow>
             (case mission_loop n flight_start_time 0 w1 of
                (Returns _, w2) \<Rightarrow> basic_goal n ''land'' w2
              | (Raises e, w2) \<Rightarrow> (Raises e, w2)
              | (StillRunning, w2) \<Rightarrow> (StillRunning, w2))
         | (Raises e, w1) \<Rightarrow> (Raises e, w1)
         | (StillRunning, w1) \<Rightarrow> (StillRunning, w1))"

text \<open>
  The waypoints a search goes through when it starts at \<open>c\<close> and reaches \<open>j\<close>
  waypoints in a row with no roomba in sight.
\<close>

fun sweep :: "nat \<Rightarrow> nat \<Rightarrow> nat list" where
  "sweep c 0 = []"
| "sweep c (Suc j) = c # sweep (next_search_state c) j"

section \<open>Reading the calls made on the client\<close>

text \<open>The goals sent and the cancellations, without the status queries.\<close>

fun is_command :: "call \<Rightarrow> bool" where
  "is_command (SendGoal g) = True"
| "is_command CancelGoal = True"
| "is_command (GetState s) = False"
| "is_command WaitForResult = False"
| "is_command GetResult = False"

definition commands :: "call list \<Rightarrow> call list" where
  "commands cs = filter is_command cs"

text \<open>
  One goal at a time: walking through the calls, the flag says whether a goal sent
  earlier may still be active. Sending sets it; a cancellation, a final status seen, or
  a completed \<open>wait_for_result\<close> clears it; no goal is sent while it is set.
\<close>

fun one_goal_at_a_time :: "bool \<Rightarrow> call list \<Rightarrow> bool" where
  "one_goal_at_a_time active [] = True"
| "one_goal_at_a_time active (SendGoal g # cs) = (\<not> active \<and> one_goal_at_a_time True cs)"
| "one_goal_at_a_time active (CancelGoal # cs) = one_goal_at_a_time False cs"
| "one_goal_at_a_time active (GetState s # cs) =
     one_goal_at_a_time (active \<and> \<not> final_status s \<and> s \<noteq> LOST) cs"
| "one_goal_at_a_time active (WaitForResult # cs) = one_goal_at_a_time False cs"
| "one_goal_at_a_time active (GetResult # cs) = one_goal_at_a_time active cs"

text \<open>The goals sent by \<open>basic_goal\<close>: takeoff and land.\<close>

fun is_basic :: "call \<Rightarrow> bool" where
  "is_basic (SendGoal (Basic g)) = True"
| "is_basic c = False"

definition basic_goals :: "call list \<Rightarrow> call list" where
  "basic_goals cs = filter is_basic cs"

text \<open>
  Two worlds with the same surroundings and the same takeoff and land goals sent so far.
\<close>

definition same_place :: "world \<Rightarrow> world \<Rightarrow> bool" where
  "same_place w w' \<longleftrightarrow>
     sensors w' = sensors w \<and> wall_clock w' = wall_clock w \<and> status_feed w' = status_feed w
     \<and> arena_to_map w' = arena_to_map w \<and> msg_lt w' = msg_lt w
     \<and> basic_goals (calls w') = basic_goals (calls w)"

section \<open>Sample inputs\<close>

definition roomba_at :: "string \<Rightarrow> real \<Rightarrow> real \<Rightarrow> odometry" where
  "roomba_at name x y =
     \<lparr>child_frame_id = name, position_x = x, position_y = y,
      orientation_x = 0, orientation_y = 0, orientation_z = 0, orientation_w = 1\<rparr>"

definition drone_at :: "real \<Rightarrow> real \<Rightarrow> odometry" where
  "drone_at x y = roomba_at ''quad'' x y"

text \<open>
  The world right after the constructor: nothing asked of the client yet, and
  \<open>_search_state = 0\<close>. The arena and the map share their coordinates, and the
  interpreter never orders one message before another.
\<close>

definition initial_world :: "(nat \<Rightarrow> GoalStatus) \<Rightarrow> (nat \<Rightarrow> sample) \<Rightarrow> (nat \<Rightarrow> int) \<Rightarrow> world" where
  "initial_world statuses seen clock =
     \<lparr>status_feed = statuses, sensors = seen, wall_clock = clock,
      arena_to_map = (\<lambda>p. p), msg_lt = (\<lambda>a b. False),
      polls = 0, ticks = 0, calls = [], search_state = 0\<rparr>"

definition seeing :: "odometry list \<Rightarrow> odometry \<Rightarrow> sample" where
  "seeing roombas drone = \<lparr>feed_roombas = Some roombas, feed_odom = Some drone\<rparr>"

definition world_far :: world where
  "world_far =
     initial_world (\<lambda>k. ACTIVE) (\<lambda>t. seeing [roomba_at ''roomba1'' 3 4] (drone_at 0 0)) (\<lambda>t. 0)"

definition world_near :: world where
  "world_near =
     initial_world (\<lambda>k. ACTIVE) (\<lambda>t. seeing [roomba_at ''roomba1'' (3 / 10) 0] (drone_at 0 0)) (\<lambda>t. 0)"

definition world_empty_arena :: world where
  "world_empty_arena =
     initial_world (\<lambda>k. SUCCEEDED) (\<lambda>t. seeing [] (drone_at 0 0)) (\<lambda>t. 0)"

text \<open>
  A roomba is in sight during the first pass only. Takeoff is reported as succeeded at
  once, the next five status queries find the goal active, and later ones find it
  succeeded. The clock advances by \<open>step\<close> nanoseconds per pass.
\<close>

definition mission_world :: "int \<Rightarrow> world" where
  "mission_world step =
     initial_world (\<lambda>k. if k = 0 \<or> 6 \<le> k then SUCCEEDED else ACTIVE)
       (\<lambda>t. if t = 0 then seeing [roomba_at ''roomba1'' 3 4] (drone_at 0 0)
            else seeing [] (drone_at 0 0))
       (\<lambda>t. int t * step)"

text \<open>
  A roomba stays in sight, 0.3 m from the drone, and every goal after takeoff stays
  active. The clock advances by a thirtieth of a second per pass.
\<close>

definition world_following :: world where
  "world_following =
     initial_world (\<lambda>k. if k = 0 then SUCCEEDED else ACTIVE)
       (\<lambda>t. seeing [roomba_at ''roomba1'' (3 / 10) 0] (drone_at 0 0))
       (\<lambda>t. int t * 33333333)"

section \<open>Properties of target selection\<close>

lemma find_roomba_by_id_Cons:
  "find_roomba_by_id (x # xs) i =
     (if child_frame_id x = i then Some x else find_roomba_by_id xs i)"
  by (simp add: find_roomba_by_id_def)

lemma find_roomba_by_id_first: "find_roomba_by_id roombas i = first_with_id roombas i"
proof (induction roombas)
  case Nil
  show ?case by (simp add: find_roomba_by_id_def)
next
  case (Cons x xs)
  then show ?case by (simp add: find_roomba_by_id_Cons)
qed

lemma first_with_id_None: "first_with_id roombas i = None \<longleftrightarrow> (\<forall>x \<in> set roombas. child_frame_id x \<noteq> i)"
  by (induction roombas) auto

lemma first_with_id_Some:
  "first_with_id roombas i = Some r \<longleftrightarrow>
     (\<exists>pre post. roombas = pre @ r # post \<and> child_frame_id r = i
        \<and> (\<forall>x \<in> set pre. child_frame_id x \<noteq> i))"
proof (induction roombas)
  case Nil
  show ?case by simp
next
  case (Cons x xs)
  show ?case
  proof (cases "child_frame_id x = i")
    case True
    have "(\<exists>pre post. x # xs = pre @ r # post \<and> child_frame_id r = i
            \<and> (\<forall>y \<in> set pre. child_frame_id y \<noteq> i)) \<longleftrightarrow> x = r"
    proof
      assume "\<exists>pre post. x # xs = pre @ r # post \<and> child_frame_id r = i
            \<and> (\<forall>y \<in> set pre. child_frame_id y \<noteq> i)"
      then obtain pre post where p: "x # xs = pre @ r # post"
        "\<forall>y \<in> set pre. child_frame_id y \<noteq> i" by blast
      show "x = r"
      proof (cases pre)
        case Nil
        with p show ?thesis by simp
      next
        case (Cons a as)
        with p True show ?thesis by auto
      qed
    next
      assume "x = r"
      with True have "x # xs = [] @ r # xs \<and> child_frame_id r = i
            \<and> (\<forall>y \<in> set []. child_frame_id y \<noteq> i)" by simp
      then show "\<exists>pre post. x # xs = pre @ r # post \<and> child_frame_id r = i
            \<and> (\<forall>y \<in> set pre. child_frame_id y \<noteq> i)" by blast
    qed
    with True show ?thesis by simp
  next
    case False
    have "(\<exists>pre post. x # xs = pre @ r # post \<and> child_frame_id r = i
            \<and> (\<forall>y \<in> set pre. child_frame_id y \<noteq> i))
          \<longleftrightarrow> (\<exists>pre post. xs = pre @ r # post \<and> child_frame_id r = i
            \<and> (\<forall>y \<in> set pre. child_frame_id y \<noteq> i))"
    proof
      assume "\<exists>pre post. x # xs = pre @ r # post \<and> child_frame_id r = i
            \<and> (\<forall>y \<in> set pre. child_frame_id y \<noteq> i)"
      then obtain pre post where p: "x # xs = pre @ r # post" "child_frame_id r = i"
        "\<forall>y \<in> set pre. child_frame_id y \<noteq> i" by blast
      show "\<exists>pre post. xs = pre @ r # post \<and> child_frame_id r = i
            \<and> (\<forall>y \<in> set pre. child_frame_id y \<noteq> i)"
      proof (cases pre)
        case Nil
        with p False show ?thesis by simp
      next
        case (Cons a as)
        with p have "xs = as @ r # post \<and> child_frame_id r = i
            \<and> (\<forall>y \<in> set as. child_frame_id y \<noteq> i)" by simp
        then show ?thesis by blast
      qed
    next
      assume "\<exists>pre post. xs = pre @ r # post \<and> child_frame_id r = i
            \<and> (\<forall>y \<in> set pre. child_frame_id y \<noteq> i)"
      then obtain pre post where p: "xs = pre @ r # post" "child_frame_id r = i"
        "\<forall>y \<in> set pre. child_frame_id y \<noteq> i" by blast
      with False have "x # xs = (x # pre) @ r # post \<and> child_frame_id r = i
            \<and> (\<forall>y \<in> set (x # pre). child_frame_id y \<noteq> i)" by simp
      then show "\<exists>pre post. x # xs = pre @ r # post \<and> child_frame_id r = i
            \<and> (\<forall>y \<in> set pre. child_frame_id y \<noteq> i)" by blast
    qed
    with False Cons.IH show ?thesis by simp
  qed
qed

text \<open>
  C10. \<open>find_roomba_by_id\<close> returns the first message of the snapshot, in snapshot
  order, whose \<open>child_frame_id\<close> is the identifier asked for, and \<open>None\<close> when no
  message carries it: the result is \<open>Some r\<close> exactly when the snapshot splits into a
  front part without the identifier, then \<open>r\<close>, then the rest. With several messages of
  the same identifier the earliest is returned.
\<close>

theorem find_roomba_by_id_first_match:
  "find_roomba_by_id roombas i = first_with_id roombas i
   \<and> (find_roomba_by_id roombas i = None \<longleftrightarrow> (\<forall>x \<in> set roombas. child_frame_id x \<noteq> i))
   \<and> (find_roomba_by_id roombas i = Some r \<longleftrightarrow>
        (\<exists>pre post. roombas = pre @ r # post \<and> child_frame_id r = i
           \<and> (\<forall>x \<in> set pre. child_frame_id x \<noteq> i)))"
  by (simp only: find_roomba_by_id_first first_with_id_None first_with_id_Some)

theorem find_roomba_by_id_first_match_witness:
  "find_roomba_by_id
     [roomba_at ''roomba1'' 1 1, roomba_at ''roomba2'' 2 2, roomba_at ''roomba2'' 3 3] ''roomba2''
     = Some (roomba_at ''roomba2'' 2 2)
   \<and> (\<exists>pre post.
        [roomba_at ''roomba1'' 1 1, roomba_at ''roomba2'' 2 2, roomba_at ''roomba2'' 3 3]
          = pre @ roomba_at ''roomba2'' 2 2 # post
        \<and> (\<forall>x \<in> set pre. child_frame_id x \<noteq> ''roomba2''))
   \<and> find_roomba_by_id [roomba_at ''roomba1'' 1 1] ''roomba2'' = None"
proof -
  have a: "find_roomba_by_id
     [roomba_at ''roomba1'' 1 1, roomba_at ''roomba2'' 2 2, roomba_at ''roomba2'' 3 3] ''roomba2''
     = Some (roomba_at ''roomba2'' 2 2)"
    by (simp add: find_roomba_by_id_def roomba_at_def)
  have b: "find_roomba_by_id [roomba_at ''roomba1'' 1 1] ''roomba2'' = None"
    by (simp add: find_roomba_by_id_def roomba_at_def)
  from a find_roomba_by_id_first_match
    [of "[roomba_at ''roomba1'' 1 1, roomba_at ''roomba2'' 2 2, roomba_at ''roomba2'' 3 3]"
        "''roomba2''" "roomba_at ''roomba2'' 2 2"]
  have "\<exists>pre post.
        [roomba_at ''roomba1'' 1 1, roomba_at ''roomba2'' 2 2, roomba_at ''roomba2'' 3 3]
          = pre @ roomba_at ''roomba2'' 2 2 # post
        \<and> child_frame_id (roomba_at ''roomba2'' 2 2) = ''roomba2''
        \<and> (\<forall>x \<in> set pre. child_frame_id x \<noteq> ''roomba2'')"
    by blast
  then have "\<exists>pre post.
        [roomba_at ''roomba1'' 1 1, roomba_at ''roomba2'' 2 2, roomba_at ''roomba2'' 3 3]
          = pre @ roomba_at ''roomba2'' 2 2 # post
        \<and> (\<forall>x \<in> set pre. child_frame_id x \<noteq> ''roomba2'')"
    by blast
  with a b show ?thesis by blast
qed

lemma tuple_less_pair:
  "tuple_less lt (d1, r1) (d2, r2) = (if d1 \<noteq> d2 then d1 < d2 else if r1 \<noteq> r2 then lt r1 r2 else False)"
  by (simp add: tuple_less_def)

lemma set_insert_sorted: "set (insert_sorted lt x ys) = insert x (set ys)"
  by (induction ys) auto

lemma sorted_py_Nil: "sorted_py lt [] = []"
  by (simp add: sorted_py_def)

lemma sorted_py_snoc: "sorted_py lt (xs @ [x]) = insert_sorted lt x (sorted_py lt xs)"
  by (simp add: sorted_py_def)

lemma set_sorted_py: "set (sorted_py lt xs) = set xs"
  by (induction xs rule: rev_induct) (simp_all add: sorted_py_snoc sorted_py_Nil set_insert_sorted)

lemma insert_sorted_by_dist:
  "sorted_wrt (\<lambda>a b. fst a \<le> (fst b :: real)) ys \<Longrightarrow>
   sorted_wrt (\<lambda>a b. fst a \<le> fst b) (insert_sorted (tuple_less lt) x ys)"
proof (induction ys)
  case Nil
  show ?case by simp
next
  case (Cons y ys)
  show ?case
  proof (cases "tuple_less lt x y")
    case True
    then have "fst x \<le> fst y" by (auto simp: tuple_less_def split: if_splits)
    with Cons.prems True show ?thesis by fastforce
  next
    case False
    then have "fst y \<le> fst x" by (auto simp: tuple_less_def split: if_splits)
    with Cons False show ?thesis by (auto simp: set_insert_sorted)
  qed
qed

lemma sorted_py_by_dist: "sorted_wrt (\<lambda>a b. fst a \<le> (fst b :: real)) (sorted_py (tuple_less lt) xs)"
proof (induction xs rule: rev_induct)
  case Nil
  show ?case by (simp add: sorted_py_Nil)
next
  case (snoc x xs)
  then show ?case by (simp add: sorted_py_snoc insert_sorted_by_dist)
qed

lemma nearest_first_snoc:
  "nearest_first drone (rs @ [x]) =
     (case nearest_first drone rs of
        None \<Rightarrow> Some x
      | Some s \<Rightarrow> if roomba_distance x drone < roomba_distance s drone then Some x else Some s)"
  by (induction rs) (auto split: option.splits)

lemma nearest_first_mem: "nearest_first drone rs = Some s \<Longrightarrow> s \<in> set rs"
  by (induction rs arbitrary: s) (auto split: option.splits if_splits)

lemma hd_sorted_py_stable:
  assumes "\<forall>x \<in> set rs. \<forall>y \<in> set rs. roomba_distance x drone = roomba_distance y drone \<longrightarrow> \<not> lt x y"
    and "rs \<noteq> []"
  shows "\<exists>s ps. nearest_first drone rs = Some s \<and>
     sorted_py (tuple_less lt) (map (\<lambda>r. (roomba_distance r drone, r)) rs) = (roomba_distance s drone, s) # ps"
  using assms
proof (induction rs rule: rev_induct)
  case Nil
  then show ?case by simp
next
  case (snoc x rs)
  show ?case
  proof (cases "rs = []")
    case True
    then show ?thesis by (simp add: sorted_py_def)
  next
    case False
    from snoc.prems have "\<forall>x \<in> set rs. \<forall>y \<in> set rs. roomba_distance x drone = roomba_distance y drone \<longrightarrow> \<not> lt x y"
      by simp
    with snoc.IH False obtain s ps where s: "nearest_first drone rs = Some s"
      "sorted_py (tuple_less lt) (map (\<lambda>r. (roomba_distance r drone, r)) rs) = (roomba_distance s drone, s) # ps"
      by blast
    from s(1) have "s \<in> set rs" by (rule nearest_first_mem)
    with snoc.prems have nolt: "roomba_distance x drone = roomba_distance s drone \<longrightarrow> \<not> lt x s"
      by simp
    show ?thesis
    proof (cases "roomba_distance x drone < roomba_distance s drone")
      case True
      with s show ?thesis by (simp add: sorted_py_snoc nearest_first_snoc tuple_less_pair)
    next
      case False
      with nolt have "\<not> tuple_less lt (roomba_distance x drone, x) (roomba_distance s drone, s)"
        by (simp add: tuple_less_pair)
      with s False show ?thesis by (simp add: sorted_py_snoc nearest_first_snoc)
    qed
  qed
qed

lemma hd_by_dist:
  "sorted_wrt (\<lambda>a b. fst a \<le> (fst b :: real)) (p # ps) \<Longrightarrow> q \<in> set (p # ps) \<Longrightarrow> fst p \<le> fst q"
  by auto

lemma target_roomba_law_min:
  assumes "roombas \<noteq> []"
  shows "\<exists>r. target_roomba_law lt roombas drone = Inr r \<and> r \<in> set roombas
           \<and> (\<forall>x \<in> set roombas. roomba_distance r drone \<le> roomba_distance x drone)"
proof -
  define qs where "qs = map (\<lambda>r. (roomba_distance r drone, r)) roombas"
  define srt where "srt = sorted_py (tuple_less lt) qs"
  have set: "set srt = set qs" unfolding srt_def by (rule set_sorted_py)
  from assms have "set qs \<noteq> {}" unfolding qs_def by simp
  with set have "srt \<noteq> []" by auto
  then obtain p ps where p: "srt = p # ps" by (cases srt) simp_all
  have sw: "sorted_wrt (\<lambda>a b. fst a \<le> fst b) (p # ps)"
    using sorted_py_by_dist [of lt qs] p unfolding srt_def by simp
  from p set have "p \<in> set qs" by auto
  then obtain r where r: "r \<in> set roombas" "p = (roomba_distance r drone, r)"
    unfolding qs_def by auto
  have le: "roomba_distance r drone \<le> roomba_distance x drone" if "x \<in> set roombas" for x
  proof -
    from that have "(roomba_distance x drone, x) \<in> set qs" unfolding qs_def by simp
    with set p have "(roomba_distance x drone, x) \<in> set (p # ps)" by auto
    from hd_by_dist [OF sw this] r show ?thesis by simp
  qed
  from p r have "target_roomba_law lt roombas drone = Inr r"
    unfolding srt_def qs_def by (simp add: target_roomba_law_def)
  with le r show ?thesis by blast
qed

text \<open>
  C1, as the code has it. On a non-empty snapshot \<open>target_roomba_law\<close> returns a message
  of the snapshot whose distance to the drone is smallest. It is the first such message
  in snapshot order whenever the order on messages puts no message of the snapshot before
  another one at the same distance; in particular when a single message is nearest.
\<close>

theorem target_roomba_law_nearest:
  assumes "roombas \<noteq> []"
  shows "\<exists>r. target_roomba_law lt roombas drone = Inr r \<and> r \<in> set roombas
           \<and> (\<forall>x \<in> set roombas. roomba_distance r drone \<le> roomba_distance x drone)
           \<and> ((\<forall>x \<in> set roombas. \<forall>y \<in> set roombas.
                  roomba_distance x drone = roomba_distance y drone \<longrightarrow> \<not> lt x y)
                \<longrightarrow> nearest_first drone roombas = Some r)"
proof -
  from target_roomba_law_min [OF assms] obtain r where
    r: "target_roomba_law lt roombas drone = Inr r" "r \<in> set roombas"
       "\<forall>x \<in> set roombas. roomba_distance r drone \<le> roomba_distance x drone" by blast
  have "nearest_first drone roombas = Some r"
    if "\<forall>x \<in> set roombas. \<forall>y \<in> set roombas.
                  roomba_distance x drone = roomba_distance y drone \<longrightarrow> \<not> lt x y"
  proof -
    from hd_sorted_py_stable [OF that assms] obtain s ps where
      s: "nearest_first drone roombas = Some s"
         "sorted_py (tuple_less lt) (map (\<lambda>r. (roomba_distance r drone, r)) roombas)
            = (roomba_distance s drone, s) # ps" by blast
    from s(2) have "target_roomba_law lt roombas drone = Inr s"
      by (simp add: target_roomba_law_def)
    with r(1) s(1) show ?thesis by simp
  qed
  with r show ?thesis by blast
qed


theorem target_roomba_law_nearest_witness:
  "[roomba_at ''roomba0'' 3 4, roomba_at ''roomba1'' 0 2, roomba_at ''roomba2'' 8 0] \<noteq> []
   \<and> target_roomba_law (\<lambda>a b. False)
        [roomba_at ''roomba0'' 3 4, roomba_at ''roomba1'' 0 2, roomba_at ''roomba2'' 8 0] (drone_at 0 0)
      = Inr (roomba_at ''roomba1'' 0 2)
   \<and> nearest_first (drone_at 0 0)
        [roomba_at ''roomba0'' 3 4, roomba_at ''roomba1'' 0 2, roomba_at ''roomba2'' 8 0]
      = Some (roomba_at ''roomba1'' 0 2)"
proof -
  let ?rs = "[roomba_at ''roomba0'' 3 4, roomba_at ''roomba1'' 0 2, roomba_at ''roomba2'' 8 0]"
  have ne: "?rs \<noteq> []" by simp
  from target_roomba_law_nearest [OF ne, of "\<lambda>a b. False" "drone_at 0 0"]
  obtain r where r: "target_roomba_law (\<lambda>a b. False) ?rs (drone_at 0 0) = Inr r"
    "nearest_first (drone_at 0 0) ?rs = Some r" by auto
  have "nearest_first (drone_at 0 0) ?rs = Some (roomba_at ''roomba1'' 0 2)"
    by (simp add: roomba_distance_def roomba_at_def drone_at_def)
  with r ne show ?thesis by simp
qed

text \<open>
  C1 as stated fails on a tie. Two unequal messages are at distance 1 from the drone,
  and the interpreter orders the second message before the first: the second one is
  returned, although the first one comes first in the snapshot.
\<close>

theorem target_roomba_law_tie_counterexample:
  "target_roomba_law (\<lambda>a b. a = roomba_at ''roomba1'' 0 1 \<and> b = roomba_at ''roomba0'' 1 0)
     [roomba_at ''roomba0'' 1 0, roomba_at ''roomba1'' 0 1] (drone_at 0 0)
     = Inr (roomba_at ''roomba1'' 0 1)
   \<and> roomba_distance (roomba_at ''roomba0'' 1 0) (drone_at 0 0)
       = roomba_distance (roomba_at ''roomba1'' 0 1) (drone_at 0 0)
   \<and> nearest_first (drone_at 0 0) [roomba_at ''roomba0'' 1 0, roomba_at ''roomba1'' 0 1]
       = Some (roomba_at ''roomba0'' 1 0)
   \<and> roomba_at ''roomba0'' 1 0 \<noteq> roomba_at ''roomba1'' 0 1"
  by (simp add: target_roomba_law_def sorted_py_def tuple_less_pair roomba_distance_def
        roomba_at_def drone_at_def)

lemma wait_for_roomba_no_IndexError: "fst (wait_for_roomba n w) \<noteq> Raises IndexError"
proof (induction n arbitrary: w)
  case 0
  show ?case by simp
next
  case (Suc n)
  have nonempty: "target_roomba_law lt rs d \<noteq> Inl e" if "0 < length rs" for lt rs d e
    using target_roomba_law_min [of rs lt d] that by auto
  show ?case
    using Suc nonempty
    by (auto simp: Let_def split: prod.splits option.splits sum.splits)
qed

text \<open>
  C7, as the code has it. On an empty snapshot \<open>target_roomba_law\<close> raises IndexError
  for every drone pose; it returns no value. \<open>wait_for_roomba\<close>, the only function that
  calls it, tests the length of the snapshot first, so the error never leaves
  \<open>wait_for_roomba\<close>.
\<close>

theorem target_roomba_law_empty:
  "target_roomba_law lt [] drone = Inl IndexError
   \<and> fst (wait_for_roomba n w) \<noteq> Raises IndexError"
proof -
  have "target_roomba_law lt [] drone = Inl IndexError"
    by (simp add: target_roomba_law_def sorted_py_Nil)
  with wait_for_roomba_no_IndexError show ?thesis by blast
qed

text \<open>C7 as stated fails: on the empty snapshot the call ends in IndexError.\<close>

theorem target_roomba_law_empty_counterexample:
  "target_roomba_law (\<lambda>a b. False) [] (drone_at 0 0) = Inl IndexError"
  by (simp add: target_roomba_law_def sorted_py_def)



section \<open>Properties of tracking\<close>

lemma commands_append: "commands (xs @ ys) = commands xs @ commands ys"
  by (simp add: commands_def)

lemma commands_get_state: "commands (calls (snd (get_state w))) = commands (calls w)"
  by (simp add: get_state_def Let_def commands_def)

lemma commands_did_task_succeed: "commands (calls (snd (did_task_succeed w None))) = commands (calls w)"
  by (simp add: did_task_succeed_def get_state_def Let_def commands_def split_def)

lemma commands_did_task_fail: "commands (calls (snd (did_task_fail w None))) = commands (calls w)"
  by (simp add: did_task_fail_def get_state_def Let_def commands_def split_def)

lemma commands_did_task_finish: "commands (calls (snd (did_task_finish w))) = commands (calls w)"
  by (simp add: did_task_finish_def Let_def split_def commands_did_task_fail commands_did_task_succeed)

lemma commands_send_goal: "commands (calls (send_goal g w)) = commands (calls w) @ [SendGoal g]"
  by (simp add: send_goal_def commands_def)

lemma commands_cancel_goal: "commands (calls (cancel_goal w)) = commands (calls w) @ [CancelGoal]"
  by (simp add: cancel_goal_def commands_def)

lemma calls_rate_sleep: "calls (rate_sleep w) = calls w"
  by (simp add: rate_sleep_def)

lemma decide_far:
  "MIN_GOTO_DISTANCE \<le> d \<Longrightarrow>
   decide_action roomba rid d (0, w) = (1, send_goal (construct_goto_roomba_goal roomba) w)"
  by (simp add: decide_action_def)

lemma decide_near:
  "d < MIN_GOTO_DISTANCE \<Longrightarrow>
   decide_action roomba rid d (0, w) = (2, send_goal (TrackRoomba rid 0 0 None) w)"
  by (simp add: decide_action_def)

lemma going_near_state: "d < MIN_GOTO_DISTANCE \<Longrightarrow> fst (going_to_roomba rid d (1, w)) = 2"
  by (simp add: going_to_roomba_def Let_def split_def)

lemma going_near_commands:
  "d < MIN_GOTO_DISTANCE \<Longrightarrow>
   commands (calls (snd (going_to_roomba rid d (1, w)))) =
     commands (calls w) @ [CancelGoal, SendGoal (TrackRoomba rid 0 0 (Some 100000))]"
  by (simp add: going_to_roomba_def Let_def split_def commands_send_goal commands_cancel_goal
        commands_did_task_fail commands_did_task_succeed commands_get_state)

lemma going_far_commands:
  "\<not> d < MIN_GOTO_DISTANCE \<Longrightarrow>
   commands (calls (snd (going_to_roomba rid d tw))) = commands (calls (snd tw))"
  by (simp add: going_to_roomba_def Let_def split_def
        commands_did_task_fail commands_did_task_succeed commands_get_state)

lemma going_other_state: "fst tw \<noteq> 1 \<Longrightarrow> going_to_roomba rid d tw = tw"
  by (simp add: going_to_roomba_def Let_def split_def)

lemma tracking_commands: "commands (calls (snd (tracking_roomba tw))) = commands (calls (snd tw))"
  by (simp add: tracking_roomba_def Let_def split_def commands_did_task_finish commands_get_state)

lemma track_tick_found:
  assumes "feed_roombas (sensors w (ticks w)) = Some roombas"
    and "find_roomba_by_id roombas rid = Some roomba"
    and "feed_odom (sensors w (ticks w)) = Some drone"
  shows "track_tick rid ts w =
     (StillRunning,
      fst (tracking_roomba (going_to_roomba rid (roomba_distance roomba drone)
             (decide_action roomba rid (roomba_distance roomba drone) (ts, w)))),
      rate_sleep (snd (tracking_roomba (going_to_roomba rid (roomba_distance roomba drone)
             (decide_action roomba rid (roomba_distance roomba drone) (ts, w))))))"
  using assms by (simp add: track_tick_def Let_def split_def)

lemma MIN_GOTO_le_distance:
  "MIN_GOTO_DISTANCE \<le> roomba_distance r d \<longleftrightarrow>
     1 / 4 \<le> (position_x d - position_x r)\<^sup>2 + (position_y d - position_y r)\<^sup>2"
proof -
  define q where "q = (position_x d - position_x r)\<^sup>2 + (position_y d - position_y r)\<^sup>2"
  have "sqrt (1 / 4) = 1 / 2" by (simp add: real_sqrt_divide)
  then have m: "MIN_GOTO_DISTANCE = sqrt (1 / 4)" by (simp add: MIN_GOTO_DISTANCE_def)
  have "sqrt (1 / 4) \<le> sqrt q \<longleftrightarrow> 1 / 4 \<le> q" by (rule real_sqrt_le_iff)
  with m show ?thesis unfolding q_def roomba_distance_def Let_def by simp
qed

lemma distance_less_MIN_GOTO:
  "roomba_distance r d < MIN_GOTO_DISTANCE \<longleftrightarrow>
     (position_x d - position_x r)\<^sup>2 + (position_y d - position_y r)\<^sup>2 < 1 / 4"
  using MIN_GOTO_le_distance [of r d] by auto

text \<open>
  The only \<open>return\<close> of \<open>track_roomba_to_completion\<close> is \<open>return False\<close>, so
  \<open>attempt_mission7\<close> never counts a roomba as acquired.
\<close>

lemma track_tick_never_True: "fst (track_tick rid ts w) \<noteq> Returns True"
  by (simp add: track_tick_def Let_def split_def split: option.splits)

lemma track_loop_never_True: "fst (track_loop n rid ts w) \<noteq> Returns True"
proof (induction n arbitrary: ts w)
  case 0
  show ?case by simp
next
  case (Suc n)
  obtain r ts' w' where t: "track_tick rid ts w = (r, ts', w')" by (cases "track_tick rid ts w")
  with track_tick_never_True [of rid ts w] have "r \<noteq> Returns True" by simp
  with t Suc.IH [of ts' w'] show ?case by (cases r) auto
qed

lemma track_returns_only_False:
  "track_roomba_to_completion n roomba w = (Returns got_roomba, w') \<Longrightarrow> \<not> got_roomba"
  using track_loop_never_True [of n "child_frame_id roomba" 0 w]
  by (auto simp: track_roomba_to_completion_def)

text \<open>
  C3. At every pass of the loop of \<open>track_roomba_to_completion\<close>, whatever the value of
  \<open>track_state\<close>, if no message of the current snapshot carries the identifier of the
  tracked roomba, the pass returns \<open>False\<close> and so does the loop, with nothing asked of
  the client in that pass.
\<close>

theorem track_lost_returns_False:
  assumes "feed_roombas (sensors w (ticks w)) = Some roombas"
    and "find_roomba_by_id roombas roomba_id = None"
  shows "track_tick roomba_id track_state w = (Returns False, track_state, w)
         \<and> track_loop (Suc n) roomba_id track_state w = (Returns False, w)"
  using assms by (simp add: track_tick_def)

theorem track_lost_returns_False_witness:
  "feed_roombas (sensors world_far (ticks world_far)) = Some [roomba_at ''roomba1'' 3 4]
   \<and> find_roomba_by_id [roomba_at ''roomba1'' 3 4] ''roomba7'' = None
   \<and> track_loop (Suc 0) ''roomba7'' 0 world_far = (Returns False, world_far)
   \<and> track_loop (Suc 0) ''roomba7'' 1 world_far = (Returns False, world_far)
   \<and> track_loop (Suc 0) ''roomba7'' 2 world_far = (Returns False, world_far)"
proof -
  have a: "feed_roombas (sensors world_far (ticks world_far)) = Some [roomba_at ''roomba1'' 3 4]"
    by (simp add: world_far_def initial_world_def seeing_def)
  have b: "find_roomba_by_id [roomba_at ''roomba1'' 3 4] ''roomba7'' = None"
    by (simp add: find_roomba_by_id_def roomba_at_def)
  from a b track_lost_returns_False [OF a b, of 0 0] track_lost_returns_False [OF a b, of 1 0]
    track_lost_returns_False [OF a b, of 2 0]
  show ?thesis by simp
qed

text \<open>
  C2. With the tracked roomba in the snapshot at distance \<open>d\<close>: when
  \<open>track_state = 0\<close>, the first statement of the pass sends the goal to translate to
  the roomba and sets \<open>track_state = 1\<close> if \<open>d \<ge> MIN_GOTO_DISTANCE\<close>, and otherwise
  sends the goal to track the roomba with both overshoots zero and no duration and sets
  \<open>track_state = 2\<close>; when \<open>track_state = 1\<close> and \<open>d < MIN_GOTO_DISTANCE\<close>, the second
  statement cancels the goal, sends the goal to track the roomba with duration 100000,
  and sets \<open>track_state = 2\<close>. In each case these are the only goals and cancellations
  of the whole pass.
\<close>

theorem tracking_decisions:
  assumes "feed_roombas (sensors w (ticks w)) = Some roombas"
    and "find_roomba_by_id roombas rid = Some roomba"
    and "feed_odom (sensors w (ticks w)) = Some drone"
    and "d = roomba_distance roomba drone"
  shows "(MIN_GOTO_DISTANCE \<le> d \<longrightarrow>
            decide_action roomba rid d (0, w) = (1, send_goal (construct_goto_roomba_goal roomba) w)
            \<and> commands (calls (snd (snd (track_tick rid 0 w)))) =
                commands (calls w) @ [SendGoal (construct_goto_roomba_goal roomba)])
       \<and> (d < MIN_GOTO_DISTANCE \<longrightarrow>
            decide_action roomba rid d (0, w) = (2, send_goal (TrackRoomba rid 0 0 None) w)
            \<and> commands (calls (snd (snd (track_tick rid 0 w)))) =
                commands (calls w) @ [SendGoal (TrackRoomba rid 0 0 None)])
       \<and> (d < MIN_GOTO_DISTANCE \<longrightarrow>
            fst (going_to_roomba rid d (1, w)) = 2
            \<and> commands (calls (snd (going_to_roomba rid d (1, w)))) =
                commands (calls w) @ [CancelGoal, SendGoal (TrackRoomba rid 0 0 (Some 100000))]
            \<and> commands (calls (snd (snd (track_tick rid 1 w)))) =
                commands (calls w) @ [CancelGoal, SendGoal (TrackRoomba rid 0 0 (Some 100000))])"
proof -
  note tick = track_tick_found [OF assms(1-3), folded assms(4)]
  have far: "commands (calls (snd (snd (track_tick rid 0 w)))) =
                commands (calls w) @ [SendGoal (construct_goto_roomba_goal roomba)]"
    if "MIN_GOTO_DISTANCE \<le> d"
  proof -
    from that have "\<not> d < MIN_GOTO_DISTANCE" by simp
    then show ?thesis
      using that by (simp add: tick calls_rate_sleep tracking_commands going_far_commands
          decide_far commands_send_goal)
  qed
  have near0: "commands (calls (snd (snd (track_tick rid 0 w)))) =
                commands (calls w) @ [SendGoal (TrackRoomba rid 0 0 None)]"
    if "d < MIN_GOTO_DISTANCE"
    using that by (simp add: tick calls_rate_sleep tracking_commands decide_near
        going_other_state commands_send_goal)
  have near1: "commands (calls (snd (snd (track_tick rid 1 w)))) =
                commands (calls w) @ [CancelGoal, SendGoal (TrackRoomba rid 0 0 (Some 100000))]"
    if "d < MIN_GOTO_DISTANCE"
    using that by (simp add: tick calls_rate_sleep tracking_commands decide_action_def
        going_near_commands del: One_nat_def)
  show ?thesis
    using far near0 near1
    by (simp add: decide_far decide_near going_near_state going_near_commands del: One_nat_def)
qed


theorem tracking_decisions_witness:
  "MIN_GOTO_DISTANCE \<le> roomba_distance (roomba_at ''roomba1'' 3 4) (drone_at 0 0)
   \<and> commands (calls (snd (snd (track_tick ''roomba1'' 0 world_far))))
       = [SendGoal (XYZTranslate 3 4 (3 / 2))]
   \<and> roomba_distance (roomba_at ''roomba1'' (3 / 10) 0) (drone_at 0 0) < MIN_GOTO_DISTANCE
   \<and> commands (calls (snd (snd (track_tick ''roomba1'' 0 world_near))))
       = [SendGoal (TrackRoomba ''roomba1'' 0 0 None)]
   \<and> fst (going_to_roomba ''roomba1'' (roomba_distance (roomba_at ''roomba1'' (3 / 10) 0) (drone_at 0 0))
            (1, world_near)) = 2
   \<and> commands (calls (snd (snd (track_tick ''roomba1'' 1 world_near))))
       = [CancelGoal, SendGoal (TrackRoomba ''roomba1'' 0 0 (Some 100000))]"
proof -
  have far: "MIN_GOTO_DISTANCE \<le> roomba_distance (roomba_at ''roomba1'' 3 4) (drone_at 0 0)"
    by (simp add: MIN_GOTO_le_distance roomba_at_def drone_at_def)
  have near: "roomba_distance (roomba_at ''roomba1'' (3 / 10) 0) (drone_at 0 0) < MIN_GOTO_DISTANCE"
    by (simp add: distance_less_MIN_GOTO roomba_at_def drone_at_def power2_eq_square)
  have f1: "feed_roombas (sensors world_far (ticks world_far)) = Some [roomba_at ''roomba1'' 3 4]"
    and f3: "feed_odom (sensors world_far (ticks world_far)) = Some (drone_at 0 0)"
    and fc: "calls world_far = []"
    by (simp_all add: world_far_def initial_world_def seeing_def)
  have f2: "find_roomba_by_id [roomba_at ''roomba1'' 3 4] ''roomba1'' = Some (roomba_at ''roomba1'' 3 4)"
    by (simp add: find_roomba_by_id_def roomba_at_def)
  have n1: "feed_roombas (sensors world_near (ticks world_near)) = Some [roomba_at ''roomba1'' (3 / 10) 0]"
    and n3: "feed_odom (sensors world_near (ticks world_near)) = Some (drone_at 0 0)"
    and nc: "calls world_near = []"
    by (simp_all add: world_near_def initial_world_def seeing_def)
  have n2: "find_roomba_by_id [roomba_at ''roomba1'' (3 / 10) 0] ''roomba1''
              = Some (roomba_at ''roomba1'' (3 / 10) 0)"
    by (simp add: find_roomba_by_id_def roomba_at_def)
  have g: "construct_goto_roomba_goal (roomba_at ''roomba1'' 3 4) = XYZTranslate 3 4 (3 / 2)"
    by (simp add: construct_goto_roomba_goal_def roomba_at_def TRANSLATION_HEIGHT_def)
  from tracking_decisions [OF f1 f2 f3 refl] far
  have "commands (calls (snd (snd (track_tick ''roomba1'' 0 world_far))))
       = [SendGoal (XYZTranslate 3 4 (3 / 2))]"
    by (simp add: fc g commands_def)
  moreover from tracking_decisions [OF n1 n2 n3 refl] near
  have "commands (calls (snd (snd (track_tick ''roomba1'' 0 world_near))))
       = [SendGoal (TrackRoomba ''roomba1'' 0 0 None)]
   \<and> fst (going_to_roomba ''roomba1'' (roomba_distance (roomba_at ''roomba1'' (3 / 10) 0) (drone_at 0 0))
            (1, world_near)) = 2
   \<and> commands (calls (snd (snd (track_tick ''roomba1'' 1 world_near))))
       = [CancelGoal, SendGoal (TrackRoomba ''roomba1'' 0 0 (Some 100000))]"
    by (simp add: nc commands_def del: One_nat_def)
  ultimately show ?thesis using far near by blast
qed



section \<open>Properties of searching\<close>

lemma length_SEARCH_POINTS: "length SEARCH_POINTS = 6"
  by (simp add: SEARCH_POINTS_def)

lemma next_search_state_bound: "next_search_state c < 6"
  by (simp add: next_search_state_def length_SEARCH_POINTS)

lemma next_search_state_pos: "0 < next_search_state c"
  by (simp add: next_search_state_def)

lemma wait_for_roomba_arrived:
  assumes "status_feed w (polls w) = SUCCEEDED" and "status_feed w (Suc (polls w)) = SUCCEEDED"
  shows "wait_for_roomba (Suc n) w =
           (Returns (True, None),
            w\<lparr>polls := polls w + 2,
              calls := calls w @ [GetState SUCCEEDED, GetState SUCCEEDED]\<rparr>)"
  using assms
  by (simp add: did_task_fail_def did_task_succeed_def get_state_def Let_def)

lemma search_loop_arrived:
  assumes "search_state w < 6"
    and "status_feed w (polls w) = SUCCEEDED" and "status_feed w (Suc (polls w)) = SUCCEEDED"
  shows "search_loop (Suc n) w =
           search_loop n
             (w\<lparr>polls := polls w + 2,
                calls := calls w @
                  [SendGoal (construct_xyz_goal (arena_to_map w) (SEARCH_POINTS ! search_state w)
                       TRANSLATION_HEIGHT),
                   GetState SUCCEEDED, GetState SUCCEEDED],
                search_state := next_search_state (search_state w)\<rparr>)"
proof -
  let ?w1 = "send_goal (construct_xyz_goal (arena_to_map w) (SEARCH_POINTS ! search_state w)
                       TRANSLATION_HEIGHT) w"
  have b: "begin_translate (SEARCH_POINTS ! search_state w) TRANSLATION_HEIGHT w = Inr ?w1"
    by (simp add: begin_translate_def USE_PLANNER_def)
  have "status_feed ?w1 (polls ?w1) = SUCCEEDED" "status_feed ?w1 (Suc (polls ?w1)) = SUCCEEDED"
    using assms by (simp_all add: send_goal_def)
  from wait_for_roomba_arrived [OF this, of n]
  have wt: "wait_for_roomba (Suc n) ?w1 =
           (Returns (True, None),
            ?w1\<lparr>polls := polls ?w1 + 2,
              calls := calls ?w1 @ [GetState SUCCEEDED, GetState SUCCEEDED]\<rparr>)" .
  show ?thesis
    using assms(1)
    by (simp add: length_SEARCH_POINTS b wt del: wait_for_roomba.simps)
       (simp add: send_goal_def)
qed

lemma search_loop_sweep:
  assumes "search_state w < 6"
    and "\<forall>k < 2 * j. status_feed w (polls w + k) = SUCCEEDED"
  shows "fst (search_loop j w) = StillRunning
       \<and> commands (calls (snd (search_loop j w))) =
           commands (calls w) @
           map (\<lambda>i. SendGoal (construct_xyz_goal (arena_to_map w) (SEARCH_POINTS ! i) TRANSLATION_HEIGHT))
             (sweep (search_state w) j)"
  using assms
proof (induction j arbitrary: w)
  case 0
  show ?case by simp
next
  case (Suc j)
  let ?w' = "w\<lparr>polls := polls w + 2,
                calls := calls w @
                  [SendGoal (construct_xyz_goal (arena_to_map w) (SEARCH_POINTS ! search_state w)
                       TRANSLATION_HEIGHT),
                   GetState SUCCEEDED, GetState SUCCEEDED],
                search_state := next_search_state (search_state w)\<rparr>"
  have "0 < 2 * Suc j" "1 < 2 * Suc j" by simp_all
  with Suc.prems(2) have "status_feed w (polls w + 0) = SUCCEEDED"
    "status_feed w (polls w + 1) = SUCCEEDED" by blast+
  then have s0: "status_feed w (polls w) = SUCCEEDED"
    and s1: "status_feed w (Suc (polls w)) = SUCCEEDED" by simp_all
  have step: "search_loop (Suc j) w = search_loop j ?w'"
    by (rule search_loop_arrived [OF Suc.prems(1) s0 s1])
  have a: "search_state ?w' < 6" by (simp add: next_search_state_bound)
  have b: "\<forall>k < 2 * j. status_feed ?w' (polls ?w' + k) = SUCCEEDED"
  proof (intro allI impI)
    fix k assume "k < 2 * j"
    then have "k + 2 < 2 * Suc j" by simp
    with Suc.prems(2) have "status_feed w (polls w + (k + 2)) = SUCCEEDED" by blast
    then show "status_feed ?w' (polls ?w' + k) = SUCCEEDED" by (simp add: add.commute)
  qed
  from Suc.IH [OF a b] show ?case
    by (simp only: step) (simp add: commands_def)
qed

lemma sweep_never_home: "0 < c \<Longrightarrow> 0 \<notin> set (sweep c j)"
  by (induction j arbitrary: c) (simp_all add: next_search_state_pos)

lemma sweep_0_tl: "0 \<notin> set (tl (sweep 0 j))"
  by (cases j) (simp_all add: sweep_never_home next_search_state_pos)

lemma sweep_0_7: "sweep 0 7 = [0, 1, 2, 3, 4, 5, 1]"
  by (simp add: eval_nat_numeral next_search_state_def length_SEARCH_POINTS)

lemma search_for_roomba_sweep:
  assumes "search_state w = 0"
    and "\<forall>k < 2 * j. status_feed w (polls w + k) = SUCCEEDED"
  shows "fst (search_for_roomba j w) = StillRunning
       \<and> commands (calls (snd (search_for_roomba j w))) =
           commands (calls w) @
           map (\<lambda>i. SendGoal (construct_xyz_goal (arena_to_map w) (SEARCH_POINTS ! i) TRANSLATION_HEIGHT))
             (sweep 0 j)"
proof -
  from assms(1) have "search_state w < 6" by simp
  from search_loop_sweep [OF this assms(2)] assms(1)
  show ?thesis by (simp add: search_for_roomba_def split_def split: outcome.splits)
qed

lemma world_empty_arena_fields:
  "search_state world_empty_arena = 0" "status_feed world_empty_arena k = SUCCEEDED"
  "calls world_empty_arena = []" "arena_to_map world_empty_arena p = p"
  by (simp_all add: world_empty_arena_def initial_world_def)

text \<open>
  C5, as the code has it. A search that starts with \<open>_search_state = 0\<close> leaves it at 0
  (only a non-zero value is set to 1 on entry), so its first goal is waypoint 0. When
  each goal is reported as succeeded before a roomba is seen, the goals sent in the
  first \<open>j\<close> passes are the waypoints \<open>sweep 0 j\<close>: 0, 1, 2, 3, 4, 5 and then 1 again.
  Waypoint 0 does not come back after the first goal.
\<close>

theorem search_waypoint_order:
  assumes "search_state w = 0"
    and "\<forall>k < 2 * j. status_feed w (polls w + k) = SUCCEEDED"
  shows "commands (calls (snd (search_for_roomba j w))) =
           commands (calls w) @
           map (\<lambda>i. SendGoal (construct_xyz_goal (arena_to_map w) (SEARCH_POINTS ! i) TRANSLATION_HEIGHT))
             (sweep 0 j)
       \<and> sweep 0 7 = [0, 1, 2, 3, 4, 5, 1]
       \<and> 0 \<notin> set (tl (sweep 0 j))"
  using search_for_roomba_sweep [OF assms] sweep_0_7 sweep_0_tl by blast

theorem search_waypoint_order_witness:
  "search_state world_empty_arena = 0
   \<and> status_feed world_empty_arena (polls world_empty_arena + 13) = SUCCEEDED
   \<and> commands (calls (snd (search_for_roomba 7 world_empty_arena))) =
       [SendGoal (XYZTranslate 0 0 (3 / 2)), SendGoal (XYZTranslate 0 (15 / 2) (3 / 2)),
        SendGoal (XYZTranslate (- (15 / 2)) (15 / 2) (3 / 2)),
        SendGoal (XYZTranslate (- (15 / 2)) (- (15 / 2)) (3 / 2)),
        SendGoal (XYZTranslate 0 (- (15 / 2)) (3 / 2)), SendGoal (XYZTranslate (15 / 2) 0 (3 / 2)),
        SendGoal (XYZTranslate 0 (15 / 2) (3 / 2))]"
proof -
  have a: "search_state world_empty_arena = 0" by (rule world_empty_arena_fields)
  have b: "\<forall>k < 2 * 7. status_feed world_empty_arena (polls world_empty_arena + k) = SUCCEEDED"
    by (simp add: world_empty_arena_fields)
  from search_waypoint_order [OF a b]
  have "commands (calls (snd (search_for_roomba 7 world_empty_arena))) =
           commands (calls world_empty_arena) @
           map (\<lambda>i. SendGoal (construct_xyz_goal (arena_to_map world_empty_arena) (SEARCH_POINTS ! i) TRANSLATION_HEIGHT))
             [0, 1, 2, 3, 4, 5, 1]"
    by simp
  then have "commands (calls (snd (search_for_roomba 7 world_empty_arena))) =
       [SendGoal (XYZTranslate 0 0 (3 / 2)), SendGoal (XYZTranslate 0 (15 / 2) (3 / 2)),
        SendGoal (XYZTranslate (- (15 / 2)) (15 / 2) (3 / 2)),
        SendGoal (XYZTranslate (- (15 / 2)) (- (15 / 2)) (3 / 2)),
        SendGoal (XYZTranslate 0 (- (15 / 2)) (3 / 2)), SendGoal (XYZTranslate (15 / 2) 0 (3 / 2)),
        SendGoal (XYZTranslate 0 (15 / 2) (3 / 2))]"
    by (simp add: world_empty_arena_fields commands_def construct_xyz_goal_def
          SEARCH_POINTS_def TRANSLATION_HEIGHT_def)
  moreover have "status_feed world_empty_arena (polls world_empty_arena + 13) = SUCCEEDED"
    by (simp add: world_empty_arena_fields)
  ultimately show ?thesis using a by blast
qed

text \<open>
  C5 as stated fails at the first goal: with six waypoints and \<open>_search_state = 0\<close> the
  first six goals go to waypoints 0, 1, 2, 3, 4, 5, not to 1, 2, 3, 4, 5, 1.
\<close>

theorem search_first_waypoint_counterexample:
  "search_state world_empty_arena = 0
   \<and> commands (calls (snd (search_for_roomba 6 world_empty_arena))) =
       [SendGoal (XYZTranslate 0 0 (3 / 2)), SendGoal (XYZTranslate 0 (15 / 2) (3 / 2)),
        SendGoal (XYZTranslate (- (15 / 2)) (15 / 2) (3 / 2)),
        SendGoal (XYZTranslate (- (15 / 2)) (- (15 / 2)) (3 / 2)),
        SendGoal (XYZTranslate 0 (- (15 / 2)) (3 / 2)), SendGoal (XYZTranslate (15 / 2) 0 (3 / 2))]
   \<and> SEARCH_POINTS ! 0 = (0, 0) \<and> SEARCH_POINTS ! 1 = (0, 15 / 2)"
proof -
  have a: "search_state world_empty_arena = 0" by (rule world_empty_arena_fields)
  have b: "\<forall>k < 2 * 6. status_feed world_empty_arena (polls world_empty_arena + k) = SUCCEEDED"
    by (simp add: world_empty_arena_fields)
  have s: "sweep 0 6 = [0, 1, 2, 3, 4, 5]"
    by (simp add: eval_nat_numeral next_search_state_def length_SEARCH_POINTS)
  from search_for_roomba_sweep [OF a b]
  have "commands (calls (snd (search_for_roomba 6 world_empty_arena))) =
           commands (calls world_empty_arena) @
           map (\<lambda>i. SendGoal (construct_xyz_goal (arena_to_map world_empty_arena) (SEARCH_POINTS ! i) TRANSLATION_HEIGHT))
             [0, 1, 2, 3, 4, 5]"
    by (simp only: s)
  then have "commands (calls (snd (search_for_roomba 6 world_empty_arena))) =
       [SendGoal (XYZTranslate 0 0 (3 / 2)), SendGoal (XYZTranslate 0 (15 / 2) (3 / 2)),
        SendGoal (XYZTranslate (- (15 / 2)) (15 / 2) (3 / 2)),
        SendGoal (XYZTranslate (- (15 / 2)) (- (15 / 2)) (3 / 2)),
        SendGoal (XYZTranslate 0 (- (15 / 2)) (3 / 2)), SendGoal (XYZTranslate (15 / 2) 0 (3 / 2))]"
    by (simp add: world_empty_arena_fields commands_def construct_xyz_goal_def
          SEARCH_POINTS_def TRANSLATION_HEIGHT_def)
  moreover have "SEARCH_POINTS ! 0 = (0, 0) \<and> SEARCH_POINTS ! 1 = (0, 15 / 2)"
    by (simp add: SEARCH_POINTS_def)
  ultimately show ?thesis using a by blast
qed

text \<open>
  C9. Whenever \<open>search_for_roomba\<close> returns, and it returns only with a roomba that
  \<open>wait_for_roomba\<close> found, \<open>_search_state\<close> is 1.
\<close>

theorem search_returns_cursor_1:
  assumes "search_for_roomba n w = (Returns roomba, w')"
  shows "search_state w' = 1"
  using assms
  by (auto simp: search_for_roomba_def Let_def split: prod.splits outcome.splits)

theorem search_returns_cursor_1_witness:
  "search_state world_far = 0
   \<and> fst (search_for_roomba 1 world_far) = Returns (roomba_at ''roomba1'' 3 4)
   \<and> search_state (snd (search_for_roomba 1 world_far)) = 1"
proof -
  have r: "fst (search_for_roomba 1 world_far) = Returns (roomba_at ''roomba1'' 3 4)"
    by (simp add: search_for_roomba_def world_far_def initial_world_def seeing_def
          length_SEARCH_POINTS begin_translate_def USE_PLANNER_def send_goal_def
          did_task_fail_def did_task_succeed_def get_state_def Let_def
          target_roomba_law_def sorted_py_def)
  then have "search_for_roomba 1 world_far
      = (Returns (roomba_at ''roomba1'' 3 4), snd (search_for_roomba 1 world_far))"
    by (metis prod.collapse)
  from search_returns_cursor_1 [OF this]
  have "search_state (snd (search_for_roomba 1 world_far)) = 1" .
  moreover have "search_state world_far = 0" by (simp add: world_far_def initial_world_def)
  ultimately show ?thesis using r by blast
qed



section \<open>Properties of the mission\<close>

lemma same_place_refl: "same_place w w"
  by (simp add: same_place_def)

lemma same_place_trans: "same_place w w1 \<Longrightarrow> same_place w1 w2 \<Longrightarrow> same_place w w2"
  by (simp add: same_place_def)

lemma same_place_get_state: "same_place w (snd (get_state w))"
  by (simp add: same_place_def get_state_def Let_def basic_goals_def)

lemma same_place_did_task_fail: "same_place w (snd (did_task_fail w None))"
  by (simp add: same_place_def did_task_fail_def get_state_def Let_def basic_goals_def split_def)

lemma same_place_did_task_succeed: "same_place w (snd (did_task_succeed w None))"
  by (simp add: same_place_def did_task_succeed_def get_state_def Let_def basic_goals_def split_def)

lemma same_place_did_task_finish: "same_place w (snd (did_task_finish w))"
  unfolding did_task_finish_def Let_def split_def
  using same_place_did_task_fail [of w]
    same_place_did_task_succeed [of "snd (did_task_fail w None)"]
  by (auto intro: same_place_trans)

lemma same_place_rate_sleep: "same_place w (rate_sleep w)"
  by (simp add: same_place_def rate_sleep_def)

lemma same_place_cancel_goal: "same_place w (cancel_goal w)"
  by (simp add: same_place_def cancel_goal_def basic_goals_def)

lemma same_place_send_xyz: "same_place w (send_goal (XYZTranslate x y z) w)"
  by (simp add: same_place_def send_goal_def basic_goals_def)

lemma same_place_send_velocity: "same_place w (send_goal (VelocityTest x y z t) w)"
  by (simp add: same_place_def send_goal_def basic_goals_def)

lemma same_place_send_track: "same_place w (send_goal (TrackRoomba i x y t) w)"
  by (simp add: same_place_def send_goal_def basic_goals_def)

lemma ticks_get_state: "ticks (snd (get_state w)) = ticks w"
  by (simp add: get_state_def Let_def)

lemma ticks_did_task_fail: "ticks (snd (did_task_fail w None)) = ticks w"
  by (simp add: did_task_fail_def get_state_def Let_def split_def)

lemma ticks_did_task_succeed: "ticks (snd (did_task_succeed w None)) = ticks w"
  by (simp add: did_task_succeed_def get_state_def Let_def split_def)

lemma ticks_did_task_finish: "ticks (snd (did_task_finish w)) = ticks w"
  by (simp add: did_task_finish_def Let_def split_def ticks_did_task_fail ticks_did_task_succeed)

lemma ticks_send_goal: "ticks (send_goal g w) = ticks w"
  by (simp add: send_goal_def)

lemma ticks_cancel_goal: "ticks (cancel_goal w) = ticks w"
  by (simp add: cancel_goal_def)

lemma decide_action_place:
  "same_place (snd tw) (snd (decide_action roomba rid d tw))
   \<and> ticks (snd (decide_action roomba rid d tw)) = ticks (snd tw)"
  by (simp add: decide_action_def split_def construct_goto_roomba_goal_def
        same_place_send_xyz same_place_send_track same_place_refl ticks_send_goal)

lemma going_to_roomba_place:
  "same_place (snd tw) (snd (going_to_roomba rid d tw))
   \<and> ticks (snd (going_to_roomba rid d tw)) = ticks (snd tw)"
proof -
  let ?w = "snd tw"
  let ?w1 = "snd (get_state ?w)"
  let ?w2 = "snd (did_task_succeed ?w1 None)"
  let ?w3 = "snd (did_task_fail ?w2 None)"
  have a: "same_place ?w ?w3"
    using same_place_get_state [of ?w] same_place_did_task_succeed [of ?w1]
      same_place_did_task_fail [of ?w2]
    by (blast intro: same_place_trans)
  have b: "same_place ?w (send_goal (TrackRoomba rid 0 0 (Some 100000)) (cancel_goal ?w3))"
    using a same_place_cancel_goal [of ?w3]
      same_place_send_track [of "cancel_goal ?w3" rid 0 0 "Some 100000"]
    by (blast intro: same_place_trans)
  have t: "ticks ?w3 = ticks ?w"
    by (simp add: ticks_did_task_fail ticks_did_task_succeed ticks_get_state)
  show ?thesis
    using a b t
    by (simp add: going_to_roomba_def Let_def split_def same_place_refl
          ticks_send_goal ticks_cancel_goal)
qed

lemma tracking_roomba_place:
  "same_place (snd tw) (snd (tracking_roomba tw))
   \<and> ticks (snd (tracking_roomba tw)) = ticks (snd tw)"
proof -
  let ?w = "snd tw"
  let ?w1 = "snd (get_state ?w)"
  let ?w2 = "snd (did_task_finish ?w1)"
  have a: "same_place ?w ?w2"
    using same_place_get_state [of ?w] same_place_did_task_finish [of ?w1]
    by (blast intro: same_place_trans)
  have t: "ticks ?w2 = ticks ?w" by (simp add: ticks_did_task_finish ticks_get_state)
  show ?thesis
    using a t by (simp add: tracking_roomba_def Let_def split_def same_place_refl)
qed

lemma track_tick_place:
  "same_place w (snd (snd (track_tick rid ts w)))"
proof -
  have h: "same_place w (rate_sleep (snd (tracking_roomba (going_to_roomba rid d
             (decide_action roomba rid d (ts, w))))))" for roomba d
    using decide_action_place [of "(ts, w)" roomba rid d]
      going_to_roomba_place [of "decide_action roomba rid d (ts, w)" rid d]
      tracking_roomba_place [of "going_to_roomba rid d (decide_action roomba rid d (ts, w))"]
      same_place_rate_sleep
    by (auto intro: same_place_trans)
  show ?thesis
    by (simp add: track_tick_def Let_def split_def same_place_refl h
          split: option.splits)
qed

lemma track_tick_ticks:
  assumes "feed_roombas (sensors w (ticks w)) = Some roombas"
    and "find_roomba_by_id roombas rid = Some roomba"
    and "feed_odom (sensors w (ticks w)) = Some drone"
  shows "fst (track_tick rid ts w) = StillRunning
       \<and> ticks (snd (snd (track_tick rid ts w))) = ticks w + 1"
  using assms decide_action_place [of "(ts, w)" roomba rid "roomba_distance roomba drone"]
      going_to_roomba_place [of "decide_action roomba rid (roomba_distance roomba drone) (ts, w)" rid
         "roomba_distance roomba drone"]
      tracking_roomba_place [of "going_to_roomba rid (roomba_distance roomba drone)
         (decide_action roomba rid (roomba_distance roomba drone) (ts, w))"]
  by (simp add: track_tick_def Let_def split_def rate_sleep_def)

lemma track_loop_place: "same_place w (snd (track_loop n rid ts w))"
proof (induction n arbitrary: ts w)
  case 0
  show ?case by (simp add: same_place_refl)
next
  case (Suc n)
  obtain r ts' w' where t: "track_tick rid ts w = (r, ts', w')" by (cases "track_tick rid ts w")
  with track_tick_place [of w rid ts] have p: "same_place w w'" by simp
  show ?case
  proof (cases r)
    case StillRunning
    with t p Suc.IH [of w' ts'] show ?thesis by (auto intro: same_place_trans)
  next
    case (Returns b)
    with t p show ?thesis by simp
  next
    case (Raises e)
    with t p show ?thesis by simp
  qed
qed

lemma track_loop_present:
  assumes "\<forall>t. \<exists>roombas roomba drone. feed_roombas (sensors w t) = Some roombas
             \<and> find_roomba_by_id roombas rid = Some roomba \<and> feed_odom (sensors w t) = Some drone"
  shows "fst (track_loop n rid ts w) = StillRunning
       \<and> ticks (snd (track_loop n rid ts w)) = ticks w + n"
  using assms
proof (induction n arbitrary: ts w)
  case 0
  show ?case by simp
next
  case (Suc n)
  from Suc.prems obtain roombas roomba drone where
    s: "feed_roombas (sensors w (ticks w)) = Some roombas"
       "find_roomba_by_id roombas rid = Some roomba" "feed_odom (sensors w (ticks w)) = Some drone"
    by blast
  obtain r ts' w' where t: "track_tick rid ts w = (r, ts', w')" by (cases "track_tick rid ts w")
  from track_tick_ticks [OF s, of ts] t have r: "r = StillRunning" "ticks w' = ticks w + 1" by simp_all
  from track_tick_place [of w rid ts] t have "sensors w' = sensors w" by (simp add: same_place_def)
  with Suc.prems have "\<forall>t. \<exists>roombas roomba drone. feed_roombas (sensors w' t) = Some roombas
             \<and> find_roomba_by_id roombas rid = Some roomba \<and> feed_odom (sensors w' t) = Some drone"
    by simp
  from Suc.IH [OF this, of ts'] t r show ?case by simp
qed


lemma same_place_search_state: "same_place w (w\<lparr>search_state := c\<rparr>)"
  by (simp add: same_place_def)

lemma wait_for_roomba_place: "same_place w (snd (wait_for_roomba n w))"
proof (induction n arbitrary: w)
  case 0
  show ?case by (simp add: same_place_refl)
next
  case (Suc n)
  let ?w1 = "snd (did_task_fail w None)"
  let ?w2 = "snd (did_task_succeed ?w1 None)"
  have a: "same_place w ?w1" by (rule same_place_did_task_fail)
  have b: "same_place w ?w2"
    using a same_place_did_task_succeed [of ?w1] by (blast intro: same_place_trans)
  have c: "same_place w (snd (wait_for_roomba n (rate_sleep ?w2)))"
    using b same_place_rate_sleep [of ?w2] Suc.IH [of "rate_sleep ?w2"]
    by (blast intro: same_place_trans)
  show ?case
    using a b c
    by (simp add: Let_def split_def split: option.splits sum.splits)
qed

lemma begin_translate_place: "begin_translate p h w = Inr w1 \<Longrightarrow> same_place w w1"
  by (auto simp: begin_translate_def construct_xyz_goal_def construct_velocity_goal_def Let_def
        same_place_send_xyz same_place_send_velocity
        split: if_splits option.splits sum.splits)

lemma search_loop_place: "same_place w (snd (search_loop n w))"
proof (induction n arbitrary: w)
  case 0
  show ?case by (simp add: same_place_refl)
next
  case (Suc n)
  show ?case
  proof (cases "search_state w < length SEARCH_POINTS")
    case False
    then show ?thesis by (simp add: same_place_refl)
  next
    case True
    show ?thesis
    proof (cases "begin_translate (SEARCH_POINTS ! search_state w) TRANSLATION_HEIGHT w")
      case (Inl e)
      with True show ?thesis by (simp add: same_place_refl)
    next
      case (Inr w1)
      then have p1: "same_place w w1" by (rule begin_translate_place)
      obtain r w2 where wt: "wait_for_roomba (Suc n) w1 = (r, w2)"
        by (cases "wait_for_roomba (Suc n) w1")
      with wait_for_roomba_place [of w1 "Suc n"] p1 have p2: "same_place w w2"
        by (auto intro: same_place_trans)
      have p3: "same_place w (snd (search_loop n w2))"
        using p2 Suc.IH [of w2] by (blast intro: same_place_trans)
      have p4: "same_place w
           (snd (search_loop n (w2\<lparr>search_state := next_search_state (search_state w2)\<rparr>)))"
        using p2 same_place_search_state [of w2 "next_search_state (search_state w2)"]
          Suc.IH [of "w2\<lparr>search_state := next_search_state (search_state w2)\<rparr>"]
        by (blast intro: same_place_trans)
      show ?thesis
        using True Inr wt p2 p3 p4
        by (simp del: wait_for_roomba.simps split: outcome.splits prod.splits option.splits)
    qed
  qed
qed

lemma search_for_roomba_place: "same_place w (snd (search_for_roomba n w))"
proof -
  let ?w0 = "if search_state w \<noteq> 0 then w\<lparr>search_state := 1\<rparr> else w"
  have a: "same_place w ?w0" by (simp add: same_place_refl same_place_search_state)
  obtain r w1 where s: "search_loop n ?w0 = (r, w1)" by (cases "search_loop n ?w0")
  with search_loop_place [of ?w0 n] a have b: "same_place w w1"
    by (auto intro: same_place_trans)
  then have "same_place w (w1\<lparr>search_state := 1\<rparr>)"
    using same_place_search_state [of w1 1] by (blast intro: same_place_trans)
  with b s show ?thesis
    by (simp add: search_for_roomba_def Let_def split: outcome.splits)
qed

lemma track_roomba_to_completion_place:
  "same_place w (snd (track_roomba_to_completion n roomba w))"
  by (simp add: track_roomba_to_completion_def track_loop_place)

lemma mission_loop_place: "same_place w (snd (mission_loop n start gotten w))"
proof (induction n arbitrary: gotten w)
  case 0
  show ?case by (simp add: same_place_refl)
next
  case (Suc n)
  obtain r1 w1 where s: "search_for_roomba (Suc n) w = (r1, w1)"
    by (cases "search_for_roomba (Suc n) w")
  with search_for_roomba_place [of w "Suc n"] have p1: "same_place w w1" by simp
  show ?case
  proof (cases r1)
    case (Returns roomba)
    obtain r2 w2 where t: "track_roomba_to_completion (Suc n) roomba w1 = (r2, w2)"
      by (cases "track_roomba_to_completion (Suc n) roomba w1")
    with track_roomba_to_completion_place [of w1 "Suc n" roomba] p1 have p2: "same_place w w2"
      by (auto intro: same_place_trans)
    have p3: "same_place w (snd (mission_loop n start g w2))" for g
      using p2 Suc.IH [of w2 g] by (blast intro: same_place_trans)
    show ?thesis
      using s Returns t p2 p3
      by (simp add: Let_def split: outcome.splits)
  next
    case (Raises e)
    with s p1 show ?thesis by simp
  next
    case StillRunning
    with s p1 show ?thesis by simp
  qed
qed

lemma mission_loop_step:
  assumes "search_for_roomba (Suc n) w = (Returns roomba, w1)"
    and "track_roomba_to_completion (Suc n) roomba w1 = (Returns got_roomba, w2)"
  shows "mission_loop (Suc n) start gotten_roombas w =
           (let gotten = (if got_roomba then gotten_roombas + 1 else gotten_roombas)
            in if gotten > TARGET_NUM_ROOMBAS
                  \<or> Time_now w2 > start + Duration MAX_FLIGHT_DURATION
               then (Returns gotten, w2)
               else mission_loop n start gotten w2)"
  using assms by (simp add: Let_def)

lemma basic_goal_calls:
  "basic_goals (calls (snd (wait_for_result n w))) = basic_goals (calls w)
   \<and> commands (calls (snd (wait_for_result n w))) = commands (calls w)"
  by (induction n arbitrary: w) (simp_all add: Let_def rate_sleep_def basic_goals_def commands_def)

lemma basic_goal_sends:
  "basic_goals (calls (snd (basic_goal n g w))) = basic_goals (calls w) @ [SendGoal (Basic g)]
   \<and> commands (calls (snd (basic_goal n g w))) = commands (calls w) @ [SendGoal (Basic g)]"
proof -
  obtain r w1 where wr: "wait_for_result n (send_goal (Basic g) w) = (r, w1)"
    by (cases "wait_for_result n (send_goal (Basic g) w)")
  with basic_goal_calls [of n "send_goal (Basic g) w"]
  have "basic_goals (calls w1) = basic_goals (calls w) @ [SendGoal (Basic g)]"
    "commands (calls w1) = commands (calls w) @ [SendGoal (Basic g)]"
    by (simp_all add: send_goal_def basic_goals_def commands_def)
  with wr show ?thesis
    by (simp add: basic_goal_def basic_goals_def commands_def split: outcome.splits)
qed

lemma attempt_mission7_lands:
  assumes "basic_goal n ''takeoff'' w = (Returns (), w1)"
    and "mission_loop n (Time_now w) 0 w1 = (Returns gotten, w2)"
  shows "attempt_mission7 n w = basic_goal n ''land'' w2"
  using assms by (simp add: attempt_mission7_def Let_def)

lemma attempt_mission7_basic_goals:
  assumes "attempt_mission7 n w = (Returns (), w')"
  shows "basic_goals (calls w') =
           basic_goals (calls w) @ [SendGoal (Basic ''takeoff''), SendGoal (Basic ''land'')]"
proof -
  obtain r1 w1 where t: "basic_goal n ''takeoff'' w = (r1, w1)"
    by (cases "basic_goal n ''takeoff'' w")
  with basic_goal_sends [of n "''takeoff''" w]
  have b1: "basic_goals (calls w1) = basic_goals (calls w) @ [SendGoal (Basic ''takeoff'')]"
    by simp
  obtain r2 w2 where m: "mission_loop n (Time_now w) 0 w1 = (r2, w2)"
    by (cases "mission_loop n (Time_now w) 0 w1")
  with mission_loop_place [of w1 n "Time_now w" 0]
  have b2: "basic_goals (calls w2) = basic_goals (calls w1)" by (simp add: same_place_def)
  from assms t m have l: "basic_goal n ''land'' w2 = (Returns (), w')"
    by (simp add: attempt_mission7_def Let_def split: outcome.splits)
  with basic_goal_sends [of n "''land''" w2]
  have "basic_goals (calls w') = basic_goals (calls w2) @ [SendGoal (Basic ''land'')]" by simp
  with b1 b2 show ?thesis by simp
qed


lemmas run_defs =
  initial_world_def seeing_def roomba_at_def drone_at_def
  basic_goal_def send_goal_def cancel_goal_def rate_sleep_def final_status_def get_state_def
  did_task_fail_def did_task_succeed_def did_task_finish_def
  search_for_roomba_def begin_translate_def USE_PLANNER_def construct_xyz_goal_def
  SEARCH_POINTS_def TRANSLATION_HEIGHT_def next_search_state_def
  target_roomba_law_def sorted_py_def find_roomba_by_id_def
  track_roomba_to_completion_def track_tick_def decide_action_def going_to_roomba_def
  tracking_roomba_def construct_goto_roomba_goal_def MIN_GOTO_le_distance distance_less_MIN_GOTO
  attempt_mission7_def Time_now_def Duration_def MAX_FLIGHT_DURATION_def TARGET_NUM_ROOMBAS_def
  commands_def basic_goals_def Let_def numeral_2_eq_2

lemma pair_of_fst: "fst p = a \<Longrightarrow> p = (a, snd p)"
  by (cases p) simp

lemma mission_world_late_steps:
  "fst (basic_goal (Suc (Suc 0)) ''takeoff'' (mission_world 61000000000)) = Returns ()"
  "fst (search_for_roomba (Suc (Suc 0))
          (snd (basic_goal (Suc (Suc 0)) ''takeoff'' (mission_world 61000000000))))
     = Returns (roomba_at ''roomba1'' 3 4)"
  "fst (track_roomba_to_completion (Suc (Suc 0)) (roomba_at ''roomba1'' 3 4)
          (snd (search_for_roomba (Suc (Suc 0))
             (snd (basic_goal (Suc (Suc 0)) ''takeoff'' (mission_world 61000000000))))))
     = Returns False"
  "Time_now (mission_world 61000000000) + Duration MAX_FLIGHT_DURATION
     < Time_now (snd (track_roomba_to_completion (Suc (Suc 0)) (roomba_at ''roomba1'' 3 4)
          (snd (search_for_roomba (Suc (Suc 0))
             (snd (basic_goal (Suc (Suc 0)) ''takeoff'' (mission_world 61000000000)))))))"
  by (simp_all add: mission_world_def run_defs)

lemma mission_world_late_run:
  "fst (attempt_mission7 (Suc (Suc 0)) (mission_world 61000000000)) = Returns ()"
  "commands (calls (snd (attempt_mission7 (Suc (Suc 0)) (mission_world 61000000000)))) =
     [SendGoal (Basic ''takeoff''), SendGoal (XYZTranslate 0 0 (3 / 2)),
      SendGoal (XYZTranslate 3 4 (3 / 2)), SendGoal (Basic ''land'')]"
  by (simp_all add: mission_world_def run_defs)

lemma mission_world_boundary_steps:
  "fst (track_roomba_to_completion (Suc (Suc 0)) (roomba_at ''roomba1'' 3 4)
          (snd (search_for_roomba (Suc (Suc 0))
             (snd (basic_goal (Suc (Suc 0)) ''takeoff'' (mission_world 60000000000))))))
     = Returns False"
  "Time_now (snd (track_roomba_to_completion (Suc (Suc 0)) (roomba_at ''roomba1'' 3 4)
          (snd (search_for_roomba (Suc (Suc 0))
             (snd (basic_goal (Suc (Suc 0)) ''takeoff'' (mission_world 60000000000)))))))
     = Time_now (mission_world 60000000000) + Duration MAX_FLIGHT_DURATION"
  "fst (attempt_mission7 (Suc (Suc 0)) (mission_world 60000000000)) = StillRunning"
  "commands (calls (snd (attempt_mission7 (Suc (Suc 0)) (mission_world 60000000000)))) =
     [SendGoal (Basic ''takeoff''), SendGoal (XYZTranslate 0 0 (3 / 2)),
      SendGoal (XYZTranslate 3 4 (3 / 2)), SendGoal (XYZTranslate 0 (15 / 2) (3 / 2))]"
  by (simp_all add: mission_world_def run_defs)

lemma world_following_present:
  "\<forall>t. \<exists>roombas r drone. feed_roombas (sensors world_following t) = Some roombas
       \<and> find_roomba_by_id roombas (child_frame_id (roomba_at ''roomba1'' (3 / 10) 0)) = Some r
       \<and> feed_odom (sensors world_following t) = Some drone"
  by (simp add: world_following_def run_defs)

lemma world_following_steps:
  "fst (basic_goal (Suc m) ''takeoff'' world_following) = Returns ()"
  "fst (search_for_roomba (Suc m) (snd (basic_goal (Suc m) ''takeoff'' world_following)))
     = Returns (roomba_at ''roomba1'' (3 / 10) 0)"
  "ticks (snd (search_for_roomba (Suc m) (snd (basic_goal (Suc m) ''takeoff'' world_following)))) = 0"
  "sensors (snd (search_for_roomba (Suc m) (snd (basic_goal (Suc m) ''takeoff'' world_following))))
     = sensors world_following"
  "wall_clock (snd (search_for_roomba (Suc m) (snd (basic_goal (Suc m) ''takeoff'' world_following))))
     = wall_clock world_following"
  "basic_goals (calls (snd (search_for_roomba (Suc m)
       (snd (basic_goal (Suc m) ''takeoff'' world_following)))))
     = [SendGoal (Basic ''takeoff'')]"
  by (simp_all add: world_following_def run_defs)

lemma world_following_run:
  "fst (attempt_mission7 (Suc m) world_following) = StillRunning
   \<and> Time_now (snd (attempt_mission7 (Suc m) world_following)) = int (Suc m) * 33333333
   \<and> basic_goals (calls (snd (attempt_mission7 (Suc m) world_following)))
       = [SendGoal (Basic ''takeoff'')]"
proof -
  define A where "A = snd (basic_goal (Suc m) ''takeoff'' world_following)"
  define B where "B = snd (search_for_roomba (Suc m) A)"
  define C where "C = snd (track_roomba_to_completion (Suc m) (roomba_at ''roomba1'' (3 / 10) 0) B)"
  note steps = world_following_steps [of m, folded A_def, folded B_def]
  have t: "basic_goal (Suc m) ''takeoff'' world_following = (Returns (), A)"
    unfolding A_def by (rule pair_of_fst [OF steps(1)])
  have s: "search_for_roomba (Suc m) A = (Returns (roomba_at ''roomba1'' (3 / 10) 0), B)"
    unfolding B_def by (rule pair_of_fst [OF steps(2)])
  have present: "\<forall>t. \<exists>roombas r drone. feed_roombas (sensors B t) = Some roombas
       \<and> find_roomba_by_id roombas (child_frame_id (roomba_at ''roomba1'' (3 / 10) 0)) = Some r
       \<and> feed_odom (sensors B t) = Some drone"
    unfolding steps(4) by (rule world_following_present)
  from track_loop_present [OF present, of "Suc m" 0]
    track_loop_place [of B "Suc m" "child_frame_id (roomba_at ''roomba1'' (3 / 10) 0)" 0]
  have k: "fst (track_roomba_to_completion (Suc m) (roomba_at ''roomba1'' (3 / 10) 0) B) = StillRunning"
    and c: "ticks C = Suc m" "wall_clock C = wall_clock world_following"
      "basic_goals (calls C) = [SendGoal (Basic ''takeoff'')]"
    unfolding C_def track_roomba_to_completion_def
    by (simp_all add: steps same_place_def)
  from k have k': "track_roomba_to_completion (Suc m) (roomba_at ''roomba1'' (3 / 10) 0) B
      = (StillRunning, C)"
    unfolding C_def by (rule pair_of_fst)
  have "attempt_mission7 (Suc m) world_following = (StillRunning, C)"
    by (simp add: attempt_mission7_def Let_def t s k' del: One_nat_def)
  moreover have "Time_now C = int (Suc m) * 33333333"
    by (simp add: Time_now_def c) (simp add: world_following_def initial_world_def)
  ultimately show ?thesis using c by simp
qed

text \<open>
  C4, as the code has it. At the check point of the loop of \<open>attempt_mission7\<close>, after
  \<open>track_roomba_to_completion\<close> has returned, the loop is left if the count of acquired
  roombas is greater than \<open>TARGET_NUM_ROOMBAS\<close> or if the time since the start of the
  flight is greater than \<open>MAX_FLIGHT_DURATION\<close>; otherwise it goes into its next pass.
  After the loop is left the land goal is sent, once: a mission that returns has sent
  the takeoff goal and the land goal, one each and in this order.
\<close>

theorem mission_loop_exit:
  "(search_for_roomba (Suc n) w = (Returns roomba, w1)
      \<and> track_roomba_to_completion (Suc n) roomba w1 = (Returns got_roomba, w2)
    \<longrightarrow> mission_loop (Suc n) start gotten_roombas w =
          (let gotten = (if got_roomba then gotten_roombas + 1 else gotten_roombas)
           in if gotten > TARGET_NUM_ROOMBAS
                 \<or> Time_now w2 > start + Duration MAX_FLIGHT_DURATION
              then (Returns gotten, w2)
              else mission_loop n start gotten w2))
   \<and> (basic_goal m ''takeoff'' v = (Returns (), v1)
      \<and> mission_loop m (Time_now v) 0 v1 = (Returns g, v2)
    \<longrightarrow> attempt_mission7 m v = basic_goal m ''land'' v2
        \<and> commands (calls (snd (basic_goal m ''land'' v2))) =
            commands (calls v2) @ [SendGoal (Basic ''land'')])
   \<and> (attempt_mission7 m v = (Returns (), v')
    \<longrightarrow> basic_goals (calls v') =
          basic_goals (calls v) @ [SendGoal (Basic ''takeoff''), SendGoal (Basic ''land'')])"
  using mission_loop_step [of n w roomba w1 got_roomba w2 start gotten_roombas]
    attempt_mission7_lands [of m v v1 g v2] basic_goal_sends [of m "''land''" v2]
    attempt_mission7_basic_goals [of m v v']
  by blast

theorem mission_loop_exit_witness:
  "fst (search_for_roomba (Suc (Suc 0))
          (snd (basic_goal (Suc (Suc 0)) ''takeoff'' (mission_world 61000000000))))
     = Returns (roomba_at ''roomba1'' 3 4)
   \<and> fst (track_roomba_to_completion (Suc (Suc 0)) (roomba_at ''roomba1'' 3 4)
          (snd (search_for_roomba (Suc (Suc 0))
             (snd (basic_goal (Suc (Suc 0)) ''takeoff'' (mission_world 61000000000))))))
     = Returns False
   \<and> fst (mission_loop (Suc (Suc 0)) (Time_now (mission_world 61000000000)) 0
          (snd (basic_goal (Suc (Suc 0)) ''takeoff'' (mission_world 61000000000)))) = Returns 0
   \<and> fst (attempt_mission7 (Suc (Suc 0)) (mission_world 61000000000)) = Returns ()
   \<and> commands (calls (snd (attempt_mission7 (Suc (Suc 0)) (mission_world 61000000000)))) =
       [SendGoal (Basic ''takeoff''), SendGoal (XYZTranslate 0 0 (3 / 2)),
        SendGoal (XYZTranslate 3 4 (3 / 2)), SendGoal (Basic ''land'')]
   \<and> basic_goals (calls (snd (attempt_mission7 (Suc (Suc 0)) (mission_world 61000000000)))) =
       [SendGoal (Basic ''takeoff''), SendGoal (Basic ''land'')]"
proof -
  define W where "W = mission_world 61000000000"
  define A where "A = snd (basic_goal (Suc (Suc 0)) ''takeoff'' W)"
  define B where "B = snd (search_for_roomba (Suc (Suc 0)) A)"
  define C where "C = snd (track_roomba_to_completion (Suc (Suc 0)) (roomba_at ''roomba1'' 3 4) B)"
  define E where "E = snd (attempt_mission7 (Suc (Suc 0)) W)"
  note steps = mission_world_late_steps [folded W_def, folded A_def, folded B_def, folded C_def]
  note run = mission_world_late_run [folded W_def, folded E_def]
  have t: "basic_goal (Suc (Suc 0)) ''takeoff'' W = (Returns (), A)"
    unfolding A_def by (rule pair_of_fst [OF steps(1)])
  have s: "search_for_roomba (Suc (Suc 0)) A = (Returns (roomba_at ''roomba1'' 3 4), B)"
    unfolding B_def by (rule pair_of_fst [OF steps(2)])
  have k: "track_roomba_to_completion (Suc (Suc 0)) (roomba_at ''roomba1'' 3 4) B = (Returns False, C)"
    unfolding C_def by (rule pair_of_fst [OF steps(3)])
  have e: "attempt_mission7 (Suc (Suc 0)) W = (Returns (), E)"
    unfolding E_def by (rule pair_of_fst [OF run(1)])
  note inst = mission_loop_exit [of "Suc 0" A "roomba_at ''roomba1'' 3 4" B False C "Time_now W" 0
      "Suc (Suc 0)" W A 0 C E]
  from inst s k have "mission_loop (Suc (Suc 0)) (Time_now W) 0 A =
          (let gotten = (if False then 0 + 1 else 0)
           in if gotten > TARGET_NUM_ROOMBAS
                 \<or> Time_now C > Time_now W + Duration MAX_FLIGHT_DURATION
              then (Returns gotten, C)
              else mission_loop (Suc 0) (Time_now W) gotten C)"
    by blast
  with steps(4) have loop: "mission_loop (Suc (Suc 0)) (Time_now W) 0 A = (Returns 0, C)"
    by (simp only: Let_def if_False if_True simp_thms)
  from inst t loop have "attempt_mission7 (Suc (Suc 0)) W = basic_goal (Suc (Suc 0)) ''land'' C"
    by blast
  from inst e have "basic_goals (calls E) =
          basic_goals (calls W) @ [SendGoal (Basic ''takeoff''), SendGoal (Basic ''land'')]"
    by blast
  then have b: "basic_goals (calls E) = [SendGoal (Basic ''takeoff''), SendGoal (Basic ''land'')]"
    by (simp add: W_def mission_world_def initial_world_def basic_goals_def)
  from loop have l: "fst (mission_loop (Suc (Suc 0)) (Time_now W) 0 A) = Returns 0" by simp
  show ?thesis
    using steps(2) steps(3) l run b
    unfolding W_def A_def B_def C_def E_def by blast
qed

text \<open>
  C4 as stated fails at the bound itself. Tracking returns when the clock shows exactly
  \<open>MAX_FLIGHT_DURATION\<close> after the start of the flight, with no roomba acquired; the
  loop is not left: the next goal is search waypoint 1, and no land goal is sent.
\<close>

theorem mission_loop_boundary_counterexample:
  "fst (track_roomba_to_completion (Suc (Suc 0)) (roomba_at ''roomba1'' 3 4)
          (snd (search_for_roomba (Suc (Suc 0))
             (snd (basic_goal (Suc (Suc 0)) ''takeoff'' (mission_world 60000000000))))))
     = Returns False
   \<and> Time_now (snd (track_roomba_to_completion (Suc (Suc 0)) (roomba_at ''roomba1'' 3 4)
          (snd (search_for_roomba (Suc (Suc 0))
             (snd (basic_goal (Suc (Suc 0)) ''takeoff'' (mission_world 60000000000)))))))
       = Time_now (mission_world 60000000000) + Duration MAX_FLIGHT_DURATION
   \<and> fst (attempt_mission7 (Suc (Suc 0)) (mission_world 60000000000)) = StillRunning
   \<and> commands (calls (snd (attempt_mission7 (Suc (Suc 0)) (mission_world 60000000000)))) =
       [SendGoal (Basic ''takeoff''), SendGoal (XYZTranslate 0 0 (3 / 2)),
        SendGoal (XYZTranslate 3 4 (3 / 2)), SendGoal (XYZTranslate 0 (15 / 2) (3 / 2))]"
  using mission_world_boundary_steps by blast


text \<open>
  C8, as the code has it. The clock is read at the check point of the loop of
  \<open>attempt_mission7\<close> only. If the time since the start of the flight is greater than
  \<open>MAX_FLIGHT_DURATION\<close> there, the loop is left whatever the count of acquired roombas,
  and the land goal comes next. The loop of \<open>track_roomba_to_completion\<close> does not read the clock: as long as the
  tracked roomba stays in the snapshot it goes on, pass after pass, and sends neither
  takeoff nor land.
\<close>

theorem clock_read_only_at_check:
  "(search_for_roomba (Suc n) w = (Returns roomba, w1)
      \<and> track_roomba_to_completion (Suc n) roomba w1 = (Returns got_roomba, w2)
      \<and> Time_now w2 > start + Duration MAX_FLIGHT_DURATION
    \<longrightarrow> mission_loop (Suc n) start gotten_roombas w =
          (Returns (if got_roomba then gotten_roombas + 1 else gotten_roombas), w2))
   \<and> ((\<forall>t. \<exists>roombas r drone. feed_roombas (sensors v t) = Some roombas
             \<and> find_roomba_by_id roombas (child_frame_id target) = Some r
             \<and> feed_odom (sensors v t) = Some drone)
    \<longrightarrow> fst (track_roomba_to_completion m target v) = StillRunning
        \<and> ticks (snd (track_roomba_to_completion m target v)) = ticks v + m
        \<and> wall_clock (snd (track_roomba_to_completion m target v)) = wall_clock v
        \<and> basic_goals (calls (snd (track_roomba_to_completion m target v))) = basic_goals (calls v))
   \<and> (basic_goal k ''takeoff'' u = (Returns (), u1)
      \<and> mission_loop k (Time_now u) 0 u1 = (Returns g, u2)
    \<longrightarrow> attempt_mission7 k u = basic_goal k ''land'' u2)"
proof -
  have a: "mission_loop (Suc n) start gotten_roombas w =
          (Returns (if got_roomba then gotten_roombas + 1 else gotten_roombas), w2)"
    if "search_for_roomba (Suc n) w = (Returns roomba, w1)"
      "track_roomba_to_completion (Suc n) roomba w1 = (Returns got_roomba, w2)"
      "Time_now w2 > start + Duration MAX_FLIGHT_DURATION"
    using mission_loop_step [OF that(1) that(2), of start gotten_roombas] that(3)
    by (simp add: Let_def)
  have b: "fst (track_roomba_to_completion m target v) = StillRunning
        \<and> ticks (snd (track_roomba_to_completion m target v)) = ticks v + m
        \<and> wall_clock (snd (track_roomba_to_completion m target v)) = wall_clock v
        \<and> basic_goals (calls (snd (track_roomba_to_completion m target v))) = basic_goals (calls v)"
    if "\<forall>t. \<exists>roombas r drone. feed_roombas (sensors v t) = Some roombas
             \<and> find_roomba_by_id roombas (child_frame_id target) = Some r
             \<and> feed_odom (sensors v t) = Some drone"
    using track_loop_present [OF that, of m 0] track_loop_place [of v m "child_frame_id target" 0]
    by (simp add: track_roomba_to_completion_def same_place_def)
  from a b attempt_mission7_lands [of k u u1 g u2] show ?thesis by blast
qed

theorem clock_read_only_at_check_witness:
  "fst (mission_loop (Suc (Suc 0)) (Time_now (mission_world 61000000000)) 0
          (snd (basic_goal (Suc (Suc 0)) ''takeoff'' (mission_world 61000000000)))) = Returns 0
   \<and> attempt_mission7 (Suc (Suc 0)) (mission_world 61000000000) =
       basic_goal (Suc (Suc 0)) ''land''
         (snd (mission_loop (Suc (Suc 0)) (Time_now (mission_world 61000000000)) 0
            (snd (basic_goal (Suc (Suc 0)) ''takeoff'' (mission_world 61000000000)))))
   \<and> fst (track_roomba_to_completion 3000 (roomba_at ''roomba1'' (3 / 10) 0) world_following)
       = StillRunning
   \<and> ticks (snd (track_roomba_to_completion 3000 (roomba_at ''roomba1'' (3 / 10) 0) world_following))
       = 3000"
proof -
  define W where "W = mission_world 61000000000"
  define A where "A = snd (basic_goal (Suc (Suc 0)) ''takeoff'' W)"
  define B where "B = snd (search_for_roomba (Suc (Suc 0)) A)"
  define C where "C = snd (track_roomba_to_completion (Suc (Suc 0)) (roomba_at ''roomba1'' 3 4) B)"
  note steps = mission_world_late_steps [folded W_def, folded A_def, folded B_def, folded C_def]
  have s: "search_for_roomba (Suc (Suc 0)) A = (Returns (roomba_at ''roomba1'' 3 4), B)"
    unfolding B_def by (rule pair_of_fst [OF steps(2)])
  have k: "track_roomba_to_completion (Suc (Suc 0)) (roomba_at ''roomba1'' 3 4) B = (Returns False, C)"
    unfolding C_def by (rule pair_of_fst [OF steps(3)])
  have t: "basic_goal (Suc (Suc 0)) ''takeoff'' W = (Returns (), A)"
    unfolding A_def by (rule pair_of_fst [OF steps(1)])
  note inst = clock_read_only_at_check [of "Suc 0" A "roomba_at ''roomba1'' 3 4" B False C
      "Time_now W" 0 world_following "roomba_at ''roomba1'' (3 / 10) 0" 3000
      "Suc (Suc 0)" W A 0 C]
  from inst s k steps(4)
  have "mission_loop (Suc (Suc 0)) (Time_now W) 0 A = (Returns (if False then 0 + 1 else 0), C)"
    by blast
  then have loop: "mission_loop (Suc (Suc 0)) (Time_now W) 0 A = (Returns 0, C)" by simp
  then have l: "fst (mission_loop (Suc (Suc 0)) (Time_now W) 0 A) = Returns 0" by simp
  from inst t loop
  have "attempt_mission7 (Suc (Suc 0)) W = basic_goal (Suc (Suc 0)) ''land'' C" by blast
  with loop have land: "attempt_mission7 (Suc (Suc 0)) W =
       basic_goal (Suc (Suc 0)) ''land'' (snd (mission_loop (Suc (Suc 0)) (Time_now W) 0 A))"
    by simp
  from inst world_following_present
  have "fst (track_roomba_to_completion 3000 (roomba_at ''roomba1'' (3 / 10) 0) world_following)
          = StillRunning
      \<and> ticks (snd (track_roomba_to_completion 3000 (roomba_at ''roomba1'' (3 / 10) 0) world_following))
          = ticks world_following + 3000"
    by blast
  moreover have "ticks world_following = 0" by (simp add: world_following_def initial_world_def)
  ultimately show ?thesis using l land unfolding W_def A_def by simp
qed

text \<open>
  C8 as stated fails while tracking. A roomba stays in sight; after 3000 passes of the
  tracking loop, 99.999999 s after the start of the flight and so past the 60 s of
  \<open>MAX_FLIGHT_DURATION\<close>, the mission is still tracking and has sent no land goal.
\<close>

theorem tracking_past_deadline_counterexample:
  "fst (attempt_mission7 3000 world_following) = StillRunning
   \<and> Time_now (snd (attempt_mission7 3000 world_following)) - Time_now world_following
       = 99999999000
   \<and> Duration MAX_FLIGHT_DURATION = 60000000000
   \<and> basic_goals (calls (snd (attempt_mission7 3000 world_following)))
       = [SendGoal (Basic ''takeoff'')]"
proof -
  have "Suc 2999 = 3000" by simp
  with world_following_run [of 2999]
  have "fst (attempt_mission7 3000 world_following) = StillRunning
   \<and> Time_now (snd (attempt_mission7 3000 world_following)) = int 3000 * 33333333
   \<and> basic_goals (calls (snd (attempt_mission7 3000 world_following)))
       = [SendGoal (Basic ''takeoff'')]"
    by (simp only:)
  moreover have "Time_now world_following = 0"
    by (simp add: Time_now_def world_following_def initial_world_def)
  moreover have "Duration MAX_FLIGHT_DURATION = 60000000000"
    by (simp add: Duration_def MAX_FLIGHT_DURATION_def)
  ultimately show ?thesis by simp
qed

text \<open>
  C6 on the code. The search sends the goal to translate to waypoint 0; a roomba comes in
  sight while that goal is active, so the search returns; the first pass of the
  tracking loop then sends its goal with no cancellation in between, although the comment
  at that place says to make sure the last task is canceled. The calls break the rule of
  one goal at a time.
\<close>

theorem goal_sent_over_active_goal:
  "calls (snd (attempt_mission7 (Suc 0) world_following)) =
     [SendGoal (Basic ''takeoff''), WaitForResult, GetResult,
      SendGoal (XYZTranslate 0 0 (3 / 2)), GetState ACTIVE, GetState ACTIVE,
      SendGoal (TrackRoomba ''roomba1'' 0 0 None),
      GetState ACTIVE, GetState ACTIVE, GetState ACTIVE]
   \<and> \<not> one_goal_at_a_time False (calls (snd (attempt_mission7 (Suc 0) world_following)))"
proof -
  have c: "calls (snd (attempt_mission7 (Suc 0) world_following)) =
     [SendGoal (Basic ''takeoff''), WaitForResult, GetResult,
      SendGoal (XYZTranslate 0 0 (3 / 2)), GetState ACTIVE, GetState ACTIVE,
      SendGoal (TrackRoomba ''roomba1'' 0 0 None),
      GetState ACTIVE, GetState ACTIVE, GetState ACTIVE]"
    by (simp add: world_following_def run_defs power2_eq_square)
  show ?thesis by (simp only: c) (simp add: final_status_def)
qed


end
